theory Spec2Isabelle
  imports Main "HOL-Library.Word" "HOL-Library.Sublist"
begin

section \<open>ISTAtrol heating valve controller: firmware/main.c\<close>

text \<open>
  The firmware runs on an AVR ATtiny: \<open>int\<close> is 16 bits wide, \<open>uint16_t\<close> is
  \<open>unsigned int\<close> and \<open>uint8_t\<close> is \<open>unsigned char\<close>.  Every \<open>uint16_t\<close> variable
  is a \<open>16 word\<close>, whose \<open>+\<close>, \<open>-\<close> and \<open>*\<close> wrap modulo 65536 as the unsigned
  arithmetic of the target does.  The build modelled is the one the source selects by
  default: neither \<open>CAN_AFFORD_USB_COMMANDS\<close> nor \<open>MULTISENSOR_BROKEN\<close> is defined.
\<close>

subsection \<open>Calibration values\<close>

text \<open>
  The six \<open>#define\<close>s between "Start calibration values" and "End calibration
  values".  They are preprocessor constants; the record makes the build a parameter, so
  that both branches of \<open>#if TARGET_TEMPERATURE < 7000\<close> can be examined.
\<close>

record config =
  TARGET_TEMPERATURE :: int
  THERMISTOR_HYSTERESIS :: int
  RADIATOR_RESPONSE_TIME :: int
  PREDICTION_STEEPNESS :: int
  MOT_OPEN_TIME :: nat
  MOT_CLOSE_TIME :: nat

text \<open>The values main.c is shipped with.\<close>

definition source_config :: config where
  "source_config =
     \<lparr> TARGET_TEMPERATURE = 5800, THERMISTOR_HYSTERESIS = 50,
       RADIATOR_RESPONSE_TIME = 120, PREDICTION_STEEPNESS = 4,
       MOT_OPEN_TIME = 200, MOT_CLOSE_TIME = 400 \<rparr>"

text \<open>The ranges the doc comments of the calibration values give ("Range: ...").\<close>

definition config_ok :: "config \<Rightarrow> bool" where
  "config_ok cfg \<longleftrightarrow>
     500 \<le> TARGET_TEMPERATURE cfg \<and> TARGET_TEMPERATURE cfg \<le> 32267 \<and>
     0 \<le> THERMISTOR_HYSTERESIS cfg \<and> THERMISTOR_HYSTERESIS cfg \<le> 499 \<and>
     0 \<le> RADIATOR_RESPONSE_TIME cfg \<and> RADIATOR_RESPONSE_TIME cfg \<le> 65535 \<and>
     PREDICTION_STEEPNESS cfg \<in> {1, 2, 4, 8, 16} \<and>
     1 \<le> MOT_OPEN_TIME cfg \<and> MOT_OPEN_TIME cfg \<le> 6500 \<and>
     1 \<le> MOT_CLOSE_TIME cfg \<and> MOT_CLOSE_TIME cfg \<le> 6500"

subsection \<open>Hardware boundary\<close>

text \<open>
  The three I/O lines main.c drives and what the firmware does to the outside world, in
  the order it does it.  The trace is the only record of the output lines: the level of
  a line is the value of the last \<open>WRITE\<close> to it, low before the first one (the port
  registers of the AVR are zero after reset).
\<close>

datatype pin = MOT_OPEN | MOT_CLOSE | TEMP_C

datatype trace_event =
    SetOutput pin
  | Write pin bool
  | DelayMs nat
  | ClearTimer1

fun level :: "trace_event list \<Rightarrow> pin \<Rightarrow> bool" where
  "level tr p =
     foldl (\<lambda>b e. case e of Write q v \<Rightarrow> (if q = p then v else b) | _ \<Rightarrow> b) False tr"

text \<open>Where \<open>usbMsgPtr\<close>, the reply pointer of the USB driver, points.\<close>

datatype msg_ptr = NullPtr | AnswerPtr

subsection \<open>Program state\<close>

text \<open>The static struct \<open>answer\<close>, "the only answer to USB commands".\<close>

record answer_t =
  temp_last :: "16 word"
  motor_moved :: "8 word"

text \<open>
  The file-scope variables of main.c, the local \<open>time\<close> of \<open>main\<close> (it lives across
  the iterations of the event loop), the driver's \<open>usbMsgPtr\<close> and the output trace.
\<close>

record state =
  temp_c :: "16 word"
  temp_temp :: "16 word"
  temp_temp_eight :: "16 word"
  conversion_done :: "8 word"
  answer :: answer_t
  time :: "16 word"
  usbMsgPtr :: msg_ptr
  trace :: "trace_event list"

text \<open>The character constants stored in \<open>answer.motor_moved\<close>.\<close>

abbreviation CHR_SPACE :: "8 word" where "CHR_SPACE \<equiv> 32"
abbreviation CHR_PLUS :: "8 word" where "CHR_PLUS \<equiv> 43"
abbreviation CHR_MINUS :: "8 word" where "CHR_MINUS \<equiv> 45"

text \<open>
  The state when \<open>main\<close> is entered: statics hold their initialisers, or zero.
  \<open>temp_temp_eight\<close> exists only under \<open>#if TARGET_TEMPERATURE < 7000\<close>, where its
  initialiser \<open>TARGET_TEMPERATURE * 8L\<close> is converted to \<open>uint16_t\<close>.
\<close>

definition power_on :: "config \<Rightarrow> state" where
  "power_on cfg =
     \<lparr> temp_c = 0, temp_temp = 0,
       temp_temp_eight =
         (if TARGET_TEMPERATURE cfg < 7000 then word_of_int (TARGET_TEMPERATURE cfg * 8) else 0),
       conversion_done = 0,
       answer = \<lparr> temp_last = 0, motor_moved = 0 \<rparr>,
       time = 0, usbMsgPtr = NullPtr, trace = [] \<rparr>"

subsection \<open>Pin and delay primitives\<close>

text \<open>
  Modelled from the spec: \<open>WRITE\<close> and \<open>SET_OUTPUT\<close> are macros of pinio.h, which is
  not among the sources; the spec assumes them "available as a minimal digital I/O
  capability": \<open>WRITE(pin, v)\<close> drives the line to level \<open>v\<close>, \<open>SET_OUTPUT(pin)\<close>
  makes it an output.  \<open>delay_ms\<close> is \<open>_delay_ms\<close>, the busy wait of avr-libc; the
  trace records its argument.
\<close>

definition WRITE :: "pin \<Rightarrow> bool \<Rightarrow> state \<Rightarrow> state" where
  "WRITE p v s = s\<lparr>trace := trace s @ [Write p v]\<rparr>"

definition SET_OUTPUT :: "pin \<Rightarrow> state \<Rightarrow> state" where
  "SET_OUTPUT p s = s\<lparr>trace := trace s @ [SetOutput p]\<rparr>"

definition delay_ms :: "nat \<Rightarrow> state \<Rightarrow> state" where
  "delay_ms d s = s\<lparr>trace := trace s @ [DelayMs d]\<rparr>"

subsection \<open>Valve motor movements\<close>

definition motor_init :: "state \<Rightarrow> state" where
  "motor_init s =
     WRITE MOT_CLOSE False (SET_OUTPUT MOT_CLOSE (WRITE MOT_OPEN False (SET_OUTPUT MOT_OPEN s)))"

definition motor_open :: "config \<Rightarrow> state \<Rightarrow> state" where
  "motor_open cfg s =
     WRITE MOT_OPEN False (delay_ms (MOT_OPEN_TIME cfg) (WRITE MOT_OPEN True s))"

definition motor_close :: "config \<Rightarrow> state \<Rightarrow> state" where
  "motor_close cfg s =
     WRITE MOT_CLOSE False (delay_ms (MOT_CLOSE_TIME cfg) (WRITE MOT_CLOSE True s))"

subsection \<open>USB\<close>

text \<open>
  \<open>usbFunctionSetup\<close> with \<open>CAN_AFFORD_USB_COMMANDS\<close> undefined: the body is
  \<open>usbMsgPtr = (void *)&answer; return sizeof(answer);\<close>.  The struct holds a
  \<open>uint16_t\<close> and a \<open>uint8_t\<close>; the AVR does not pad, so its size is 3.
\<close>

definition usbFunctionSetup :: "8 word list \<Rightarrow> state \<Rightarrow> 8 word \<times> state" where
  "usbFunctionSetup data s = (3, s\<lparr>usbMsgPtr := AnswerPtr\<rparr>)"

subsection \<open>Temperature measurement\<close>

text \<open>
  \<open>ISR(ANA_COMP_vect)\<close>.  The argument is the value of the free-running Timer 1
  (\<open>TCNT1\<close>) at the moment the comparator interrupt is served.
\<close>

definition ANA_COMP_vect :: "16 word \<Rightarrow> state \<Rightarrow> state" where
  "ANA_COMP_vect tcnt1 s =
     (if conversion_done s = 0
      then WRITE TEMP_C False (s\<lparr>temp_temp := tcnt1, conversion_done := 1\<rparr>)
      else s)"

text \<open>
  Modelled from the spec: \<open>usbPoll\<close> belongs to the V-USB driver (usbdrv.h), which is
  not among the sources.  The wait "yields briefly to interface servicing": \<open>usbPoll\<close>
  hands every setup request of the host to \<open>usbFunctionSetup\<close>.  So two things can
  happen while the main loop waits: a comparator edge, served by the interrupt routine,
  and a setup request.  Interrupts are taken to arrive during the wait that follows the
  start of a measurement, which is where the firmware expects them.
\<close>

datatype event = Edge "16 word" | UsbSetup "8 word list"

fun handle_event :: "event \<Rightarrow> state \<Rightarrow> state" where
  "handle_event (Edge tcnt1) s = ANA_COMP_vect tcnt1 s"
| "handle_event (UsbSetup data) s = snd (usbFunctionSetup data s)"

text \<open>
  \<open>poll_a_second\<close>: 25 rounds of \<open>usbPoll(); _delay_ms(40);\<close>.  The argument lists,
  round by round, the events that arrive during that round; rounds beyond the end of the
  list see no event, and events listed for a round after the 25th do not arrive within
  this wait.
\<close>

fun poll_rounds :: "nat \<Rightarrow> event list list \<Rightarrow> state \<Rightarrow> state" where
  "poll_rounds 0 evss s = s"
| "poll_rounds (Suc n) evss s =
     (case evss of
        [] \<Rightarrow> poll_rounds n [] (delay_ms 40 s)
      | evs # rest \<Rightarrow> poll_rounds n rest (delay_ms 40 (fold handle_event evs s)))"

definition poll_a_second :: "event list list \<Rightarrow> state \<Rightarrow> state" where
  "poll_a_second evss s = poll_rounds 25 evss s"

text \<open>
  \<open>temp_measure\<close>, in its three parts: starting the measurement (clear Timer 1,
  clear the guard and the reading, drive \<open>TEMP_C\<close> high), the wait, and the smoothing
  selected by \<open>#if TARGET_TEMPERATURE < 7000\<close>.
\<close>

definition temp_measure_start :: "state \<Rightarrow> state" where
  "temp_measure_start s =
     WRITE TEMP_C True
       (s\<lparr>trace := trace s @ [ClearTimer1], conversion_done := 0, temp_temp := 0\<rparr>)"

definition temp_measure_smooth :: "config \<Rightarrow> state \<Rightarrow> state" where
  "temp_measure_smooth cfg s =
     (if TARGET_TEMPERATURE cfg < 7000
      then
        (let s1 = s\<lparr>temp_temp_eight := temp_temp_eight s - temp_c s\<rparr>;
             s2 = s1\<lparr>temp_temp_eight := temp_temp_eight s1 + temp_temp s1\<rparr>
         in s2\<lparr>temp_c := temp_temp_eight s2 div 8\<rparr>)
      else s\<lparr>temp_c := (temp_temp s + temp_c s + 1) div 2\<rparr>)"

definition temp_measure :: "config \<Rightarrow> event list list \<Rightarrow> state \<Rightarrow> state" where
  "temp_measure cfg evss s =
     temp_measure_smooth cfg (poll_a_second evss (temp_measure_start s))"

subsection \<open>Application\<close>

text \<open>
  \<open>temp_init\<close> and \<open>hardware_init\<close>.  The writes to \<open>ACSR\<close>, \<open>TCCR1B\<close> and
  \<open>TCCR0B\<close>, \<open>wdt_disable\<close> and the connect and disconnect calls of the USB driver
  touch none of the variables and lines below; what is left is the pin setup and the
  300 ms delay.
\<close>

definition temp_init :: "state \<Rightarrow> state" where
  "temp_init s = SET_OUTPUT TEMP_C s"

definition hardware_init :: "state \<Rightarrow> state" where
  "hardware_init s = delay_ms 300 (motor_init (temp_init s))"

text \<open>
  The extrapolation of \<open>main\<close>:
  \<open>temp_future = temp_c + PREDICTION_STEEPNESS * ((int16_t)temp_c - (int16_t)answer.temp_last)\<close>.
  The casts read the two values as two's complement (\<open>sint\<close>); difference and product
  are computed in the 16-bit \<open>int\<close> of the target, the product is converted to
  \<open>unsigned int\<close> for the addition and the sum is stored in the \<open>uint16_t temp_future\<close>.
  Signed overflow wraps on the AVR, so the value that reaches the addition is the exact
  product reduced modulo 65536, which is \<open>word_of_int\<close>.
\<close>

definition temp_future :: "config \<Rightarrow> state \<Rightarrow> 16 word" where
  "temp_future cfg s =
     temp_c s +
     word_of_int (PREDICTION_STEEPNESS cfg * (sint (temp_c s) - sint (temp_last (answer s))))"

text \<open>
  The body of \<open>if (time > RADIATOR_RESPONSE_TIME)\<close>.  \<open>temp_future\<close> is unsigned, so
  both comparisons convert the constant on the right to \<open>unsigned int\<close> and compare
  unsigned.  For a calibration in the documented ranges both constants lie in 1..32766
  and the conversion does not change them.
\<close>

definition regulate :: "config \<Rightarrow> state \<Rightarrow> state" where
  "regulate cfg s =
     (let tf = temp_future cfg s;
          s1 =
            (if tf < word_of_int (TARGET_TEMPERATURE cfg - THERMISTOR_HYSTERESIS cfg)
             then (let m = motor_close cfg s in m\<lparr>answer := (answer m)\<lparr>motor_moved := CHR_MINUS\<rparr>\<rparr>)
             else if tf > word_of_int (TARGET_TEMPERATURE cfg + THERMISTOR_HYSTERESIS cfg)
             then (let m = motor_open cfg s in m\<lparr>answer := (answer m)\<lparr>motor_moved := CHR_PLUS\<rparr>\<rparr>)
             else s\<lparr>answer := (answer s)\<lparr>motor_moved := CHR_SPACE\<rparr>\<rparr>);
          s2 = s1\<lparr>time := 0\<rparr>
      in s2\<lparr>answer := (answer s2)\<lparr>temp_last := temp_c s2\<rparr>\<rparr>)"

text \<open>
  One pass of the \<open>for (;;)\<close> loop of \<open>main\<close>.  \<open>time\<close> is a \<open>uint16_t\<close>: the
  increment wraps from 65535 to 0.  The comparison with the constant is exact for every
  constant in the documented range 0..65535.
\<close>

definition main_loop_body :: "config \<Rightarrow> event list list \<Rightarrow> state \<Rightarrow> state" where
  "main_loop_body cfg evss s =
     (let s1 = temp_measure cfg evss s;
          s2 = s1\<lparr>time := time s1 + 1\<rparr>
      in if RADIATOR_RESPONSE_TIME cfg < uint (time s2) then regulate cfg s2 else s2)"

text \<open>
  The loop never ends; \<open>main_loop\<close> runs as many passes as the list has entries,
  each entry the events of that pass, and \<open>main\<close> is the program up to that point.
\<close>

fun main_loop :: "config \<Rightarrow> event list list list \<Rightarrow> state \<Rightarrow> state" where
  "main_loop cfg [] s = s"
| "main_loop cfg (evss # rest) s = main_loop cfg rest (main_loop_body cfg evss s)"

definition main :: "config \<Rightarrow> event list list list \<Rightarrow> state" where
  "main cfg passes = main_loop cfg passes (hardware_init (power_on cfg))"

subsection \<open>Reading a wait\<close>

text \<open>
  What one call of \<open>poll_a_second\<close> captures, read off its events: the Timer 1 value
  of the first comparator edge among the events of the 25 rounds, if there is one.
  \<open>captured\<close> is the content of \<open>temp_temp\<close> when the wait ends (lemma
  \<open>wait_result\<close>): zero when no edge came, since the start of the measurement
  cleared it.
\<close>

fun first_edge :: "event list \<Rightarrow> 16 word option" where
  "first_edge [] = None"
| "first_edge (Edge t # evs) = Some t"
| "first_edge (UsbSetup d # evs) = first_edge evs"

definition captured :: "event list list \<Rightarrow> 16 word" where
  "captured evss = (case first_edge (concat (take 25 evss)) of None \<Rightarrow> 0 | Some t \<Rightarrow> t)"

subsection \<open>The regulation rule as the specification words it\<close>

text \<open>
  The specification's decision step over the integers: the prediction is
  \<open>smoothed + PredictionSteepness * (smoothed - LastObservedTemperature)\<close> in signed
  arithmetic, and the selection compares it with the hysteresis band.  These two
  definitions follow the specification, not the code; the regulation block of \<open>main\<close>
  is \<open>temp_future\<close> and \<open>regulate\<close> above.
\<close>

datatype motor_action = Close | Open | NoMove

definition spec_predicted :: "config \<Rightarrow> int \<Rightarrow> int \<Rightarrow> int" where
  "spec_predicted cfg smoothed last_observed =
     smoothed + PREDICTION_STEEPNESS cfg * (smoothed - last_observed)"

definition spec_select :: "config \<Rightarrow> int \<Rightarrow> motor_action" where
  "spec_select cfg predicted =
     (if predicted < TARGET_TEMPERATURE cfg - THERMISTOR_HYSTERESIS cfg then Close
      else if predicted > TARGET_TEMPERATURE cfg + THERMISTOR_HYSTERESIS cfg then Open
      else NoMove)"

text \<open>
  What the regulation block leaves behind for each selection: the character it stores in
  \<open>answer.motor_moved\<close>, and the output of \<open>motor_close\<close>, of \<open>motor_open\<close>, or
  nothing.
\<close>

fun marker :: "motor_action \<Rightarrow> 8 word" where
  "marker Close = CHR_MINUS"
| "marker Open = CHR_PLUS"
| "marker NoMove = CHR_SPACE"

fun pulse :: "config \<Rightarrow> motor_action \<Rightarrow> trace_event list" where
  "pulse cfg Close = [Write MOT_CLOSE True, DelayMs (MOT_CLOSE_TIME cfg), Write MOT_CLOSE False]"
| "pulse cfg Open = [Write MOT_OPEN True, DelayMs (MOT_OPEN_TIME cfg), Write MOT_OPEN False]"
| "pulse cfg NoMove = []"

subsection \<open>States and inputs of the examples\<close>

text \<open>
  \<open>scenario2\<close> is scenario 2 of the specification (target 8000, hysteresis 50,
  steepness 4, smoothed 7900, previous 8000), \<open>scenario4\<close> its scenario 4 (accumulator
  46400, smoothed 5800); \<open>eight_readings v\<close> are eight passes of the main loop, each
  with one comparator edge at Timer 1 value \<open>v\<close>.  \<open>warm_up\<close> are 241 passes: the
  sensor reads 5001 for 121 passes, up to and including the first regulation decision
  of the shipped build, and then 4000 (a warmer radiator) for 120 passes, so that the
  next pass takes the second decision.
\<close>

definition warm_up :: "event list list list" where
  "warm_up = replicate 121 [[Edge 5001]] @ replicate 120 [[Edge 4000]]"

definition scenario_config :: config where
  "scenario_config = source_config\<lparr>TARGET_TEMPERATURE := 8000\<rparr>"

definition scenario2 :: state where
  "scenario2 =
     (power_on scenario_config)\<lparr>temp_c := 7900, answer := \<lparr>temp_last = 8000, motor_moved = CHR_SPACE\<rparr>\<rparr>"

definition scenario4 :: state where
  "scenario4 = (power_on source_config)\<lparr>temp_c := 5800\<rparr>"

definition eight_readings :: "16 word \<Rightarrow> event list list list" where
  "eight_readings v =
     [[[Edge v]], [[Edge v]], [[Edge v]], [[Edge v]], [[Edge v]], [[Edge v]], [[Edge v]], [[Edge v]]]"

subsection \<open>A pass of the main loop on its variables\<close>

text \<open>
  The variables one pass of the main loop hands to the next: accumulator, smoothed
  value, cycle counter and \<open>answer\<close>.  \<open>pass_vars cfg v\<close> is \<open>main_loop_body\<close>
  read on these four, for a pass that captures the reading \<open>v\<close> (lemma
  \<open>body_vars\<close>).  It serves to evaluate long runs without carrying the output trace.
\<close>

definition vars :: "state \<Rightarrow> 16 word \<times> 16 word \<times> 16 word \<times> answer_t" where
  "vars s = (temp_temp_eight s, temp_c s, time s, answer s)"

definition pass_vars ::
  "config \<Rightarrow> 16 word \<Rightarrow> 16 word \<times> 16 word \<times> 16 word \<times> answer_t \<Rightarrow>
     16 word \<times> 16 word \<times> 16 word \<times> answer_t" where
  "pass_vars cfg v = (\<lambda>(a, c, t, ans).
     (let a' = (if TARGET_TEMPERATURE cfg < 7000 then a - c + v else a);
          c' = (if TARGET_TEMPERATURE cfg < 7000 then a' div 8 else (v + c + 1) div 2);
          t' = t + 1;
          tf = c' + word_of_int (PREDICTION_STEEPNESS cfg * (sint c' - sint (temp_last ans)))
      in if RADIATOR_RESPONSE_TIME cfg < uint t'
         then (a', c', 0,
               \<lparr>temp_last = c',
                motor_moved = marker
                  (if tf < word_of_int (TARGET_TEMPERATURE cfg - THERMISTOR_HYSTERESIS cfg)
                   then Close
                   else if word_of_int (TARGET_TEMPERATURE cfg + THERMISTOR_HYSTERESIS cfg) < tf
                   then Open
                   else NoMove)\<rparr>)
         else (a', c', t', ans)))"

subsection \<open>Ranges of the filters, and the distance to a constant reading\<close>

text \<open>
  \<open>reading_in_range cfg v\<close>: the reading \<open>v\<close> is in the range the selected filter
  is built for.  For the 8-value filter the source expects "thermistor readings to be
  always below 8192"; the two-point filter "allows readings up to 32767".
  \<open>filter_steady\<close> adds what one update establishes from any state and every later
  update keeps, and \<open>gap\<close> measures how far the filter is from rest at the reading
  \<open>v\<close>: it is zero exactly when an update with reading \<open>v\<close> changes nothing.
\<close>

definition reading_in_range :: "config \<Rightarrow> 16 word \<Rightarrow> bool" where
  "reading_in_range cfg v \<longleftrightarrow>
     (if TARGET_TEMPERATURE cfg < 7000 then v < 8192 else v \<le> 32767)"

definition filter_steady :: "config \<Rightarrow> 16 word \<Rightarrow> state \<Rightarrow> bool" where
  "filter_steady cfg v s \<longleftrightarrow>
     (if TARGET_TEMPERATURE cfg < 7000
      then v < 8192 \<and> temp_c s = temp_temp_eight s div 8
      else v \<le> 32767 \<and> temp_c s \<le> 32767)"

definition gap :: "config \<Rightarrow> 16 word \<Rightarrow> state \<Rightarrow> nat" where
  "gap cfg v s =
     (if TARGET_TEMPERATURE cfg < 7000
      then (if uint (temp_temp_eight s) div 8 = uint v then 0
            else nat \<bar>uint (temp_temp_eight s) - 8 * uint v\<bar>)
      else (if uint (temp_c s) \<le> uint v then nat (uint v - uint (temp_c s))
            else nat (uint (temp_c s) - uint v - 1)))"

subsection \<open>The motor lines over time\<close>

text \<open>
  Every prefix of the output trace is a moment of the run.  \<open>lines_exclusive tr\<close>: at
  no moment of \<open>tr\<close> are \<open>MOT_OPEN\<close> and \<open>MOT_CLOSE\<close> both high.
  \<open>motors_off tr\<close>: that, and both lines are low at the end of \<open>tr\<close>.
\<close>

definition lines_exclusive :: "trace_event list \<Rightarrow> bool" where
  "lines_exclusive tr \<longleftrightarrow>
     (\<forall>t\<in>set (prefixes tr). \<not> (level t MOT_OPEN \<and> level t MOT_CLOSE))"

definition motors_off :: "trace_event list \<Rightarrow> bool" where
  "motors_off tr \<longleftrightarrow> lines_exclusive tr \<and> \<not> level tr MOT_OPEN \<and> \<not> level tr MOT_CLOSE"

text \<open>
  A build that decides in every pass (response time 0), and two passes for it: a
  reading of 9000, then a host request and a reading of 100 followed by a second,
  spurious edge.
\<close>

definition hasty :: config where
  "hasty = source_config\<lparr>RADIATOR_RESPONSE_TIME := 0\<rparr>"

definition two_passes :: "event list list list" where
  "two_passes = [[[Edge 9000]], [[UsbSetup []], [Edge 100, Edge 130]]]"

section \<open>Properties\<close>

subsection \<open>The capture interrupt\<close>

lemma ISR_done: "conversion_done s \<noteq> 0 \<Longrightarrow> ANA_COMP_vect t s = s"
  by (simp add: ANA_COMP_vect_def)

lemma fold_ISR_done: "conversion_done s \<noteq> 0 \<Longrightarrow> fold ANA_COMP_vect ts s = s"
  by (induction ts) (simp_all add: ISR_done)

text \<open>
  C3.  After the start of a measurement the guard is clear and the excitation line
  \<open>TEMP_C\<close> is high.  Of the comparator interrupts that follow, with Timer 1 readings
  \<open>t\<close> and then \<open>ts\<close> (any number of them), the first stores \<open>t\<close> in
  \<open>temp_temp\<close>, sets \<open>conversion_done\<close> and writes \<open>TEMP_C\<close> low; all the later
  ones leave the whole state, the output trace included, as the first one left it.
\<close>

theorem capture_single_shot:
  "let s0 = temp_measure_start s; s1 = ANA_COMP_vect t s0 in
     conversion_done s0 = 0 \<and> level (trace s0) TEMP_C \<and>
     temp_temp s1 = t \<and> conversion_done s1 = 1 \<and>
     trace s1 = trace s0 @ [Write TEMP_C False] \<and> \<not> level (trace s1) TEMP_C \<and>
     fold ANA_COMP_vect ts s1 = s1"
proof -
  define s0 where "s0 = temp_measure_start s"
  define s1 where "s1 = ANA_COMP_vect t s0"
  have a: "conversion_done s0 = 0" "level (trace s0) TEMP_C"
    by (simp_all add: s0_def temp_measure_start_def WRITE_def)
  have b: "temp_temp s1 = t" "conversion_done s1 = 1"
    "trace s1 = trace s0 @ [Write TEMP_C False]"
    using a(1) by (simp_all add: s1_def ANA_COMP_vect_def WRITE_def)
  have c: "\<not> level (trace s1) TEMP_C" by (simp add: b(3))
  have d: "fold ANA_COMP_vect ts s1 = s1" by (rule fold_ISR_done) (simp add: b(2))
  show ?thesis using a b c d by (simp add: s0_def s1_def Let_def)
qed

subsection \<open>What a wait and a measurement leave behind\<close>

lemma first_edge_append:
  "first_edge (xs @ ys) = (case first_edge xs of None \<Rightarrow> first_edge ys | Some t \<Rightarrow> Some t)"
  by (induction xs rule: first_edge.induct) simp_all

lemma handle_event_frame:
  "temp_c (handle_event e s) = temp_c s"
  "temp_temp_eight (handle_event e s) = temp_temp_eight s"
  "answer (handle_event e s) = answer s"
  "time (handle_event e s) = time s"
  by (cases e; simp add: ANA_COMP_vect_def WRITE_def usbFunctionSetup_def)+

lemma fold_handle_event_frame:
  "temp_c (fold handle_event evs s) = temp_c s \<and>
   temp_temp_eight (fold handle_event evs s) = temp_temp_eight s \<and>
   answer (fold handle_event evs s) = answer s \<and>
   time (fold handle_event evs s) = time s"
  by (induction evs arbitrary: s) (simp_all add: handle_event_frame)

lemma fold_handle_event_done:
  "conversion_done s \<noteq> 0 \<Longrightarrow>
   temp_temp (fold handle_event evs s) = temp_temp s \<and>
   conversion_done (fold handle_event evs s) = conversion_done s"
proof (induction evs arbitrary: s)
  case Nil
  show ?case by simp
next
  case (Cons e evs)
  have "conversion_done (handle_event e s) = conversion_done s"
    "temp_temp (handle_event e s) = temp_temp s"
    using Cons.prems by (cases e; simp add: ANA_COMP_vect_def usbFunctionSetup_def)+
  with Cons show ?case by simp
qed

lemma fold_handle_event_capture:
  "conversion_done s = 0 \<Longrightarrow>
   temp_temp (fold handle_event evs s) = (case first_edge evs of None \<Rightarrow> temp_temp s | Some t \<Rightarrow> t) \<and>
   conversion_done (fold handle_event evs s) = (case first_edge evs of None \<Rightarrow> 0 | Some t \<Rightarrow> 1)"
proof (induction evs arbitrary: s rule: first_edge.induct)
  case 1
  then show ?case by simp
next
  case (2 t evs)
  have d: "conversion_done (ANA_COMP_vect t s) \<noteq> 0" "temp_temp (ANA_COMP_vect t s) = t"
    "conversion_done (ANA_COMP_vect t s) = 1"
    using 2 by (simp_all add: ANA_COMP_vect_def WRITE_def)
  show ?case using fold_handle_event_done [OF d(1), of evs] d(2,3) by simp
next
  case (3 d evs)
  have "conversion_done (snd (usbFunctionSetup d s)) = 0"
    "temp_temp (snd (usbFunctionSetup d s)) = temp_temp s"
    using 3(2) by (simp_all add: usbFunctionSetup_def)
  with 3(1) [of "snd (usbFunctionSetup d s)"] show ?case by (simp split: option.split)
qed

lemma poll_rounds_frame:
  "temp_c (poll_rounds n evss s) = temp_c s \<and>
   temp_temp_eight (poll_rounds n evss s) = temp_temp_eight s \<and>
   answer (poll_rounds n evss s) = answer s \<and>
   time (poll_rounds n evss s) = time s"
  by (induction n evss s rule: poll_rounds.induct)
     (simp_all add: delay_ms_def fold_handle_event_frame split: list.splits)

lemma poll_rounds_done:
  "conversion_done s \<noteq> 0 \<Longrightarrow>
   temp_temp (poll_rounds n evss s) = temp_temp s \<and>
   conversion_done (poll_rounds n evss s) = conversion_done s"
proof (induction n evss s rule: poll_rounds.induct)
  case (1 evss s)
  show ?case by simp
next
  case (2 n evss s)
  show ?case
  proof (cases evss)
    case Nil
    with 2 show ?thesis by (simp add: delay_ms_def)
  next
    case (Cons evs rest)
    with 2(2) [OF Cons] 2(3) fold_handle_event_done [OF 2(3), of evs]
    show ?thesis by (simp add: delay_ms_def)
  qed
qed

lemma poll_rounds_capture:
  "conversion_done s = 0 \<Longrightarrow>
   temp_temp (poll_rounds n evss s) =
     (case first_edge (concat (take n evss)) of None \<Rightarrow> temp_temp s | Some t \<Rightarrow> t) \<and>
   conversion_done (poll_rounds n evss s) =
     (case first_edge (concat (take n evss)) of None \<Rightarrow> 0 | Some t \<Rightarrow> 1)"
proof (induction n evss s rule: poll_rounds.induct)
  case (1 evss s)
  then show ?case by simp
next
  case (2 n evss s)
  show ?case
  proof (cases evss)
    case Nil
    with 2 show ?thesis by (simp add: delay_ms_def)
  next
    case (Cons evs rest)
    let ?s1 = "delay_ms 40 (fold handle_event evs s)"
    have f: "temp_temp ?s1 = (case first_edge evs of None \<Rightarrow> temp_temp s | Some t \<Rightarrow> t)"
      "conversion_done ?s1 = (case first_edge evs of None \<Rightarrow> 0 | Some t \<Rightarrow> 1)"
      using fold_handle_event_capture [OF 2(3), of evs] by (simp_all add: delay_ms_def)
    show ?thesis
    proof (cases "first_edge evs")
      case None
      with f have "conversion_done ?s1 = 0" "temp_temp ?s1 = temp_temp s" by simp_all
      with 2(2) [OF Cons] show ?thesis
        by (simp add: Cons first_edge_append None split: option.split)
    next
      case (Some t)
      with f have "conversion_done ?s1 \<noteq> 0" "temp_temp ?s1 = t" "conversion_done ?s1 = 1" by simp_all
      with poll_rounds_done [of ?s1 n rest] show ?thesis
        by (simp add: Cons first_edge_append Some)
    qed
  qed
qed

lemma wait_result:
  "temp_temp (poll_a_second evss (temp_measure_start s)) = captured evss"
  "conversion_done (poll_a_second evss (temp_measure_start s)) =
     (case first_edge (concat (take 25 evss)) of None \<Rightarrow> 0 | Some t \<Rightarrow> 1)"
  "temp_c (poll_a_second evss (temp_measure_start s)) = temp_c s"
  "temp_temp_eight (poll_a_second evss (temp_measure_start s)) = temp_temp_eight s"
  "answer (poll_a_second evss (temp_measure_start s)) = answer s"
  "time (poll_a_second evss (temp_measure_start s)) = time s"
proof -
  have z: "conversion_done (temp_measure_start s) = 0" "temp_temp (temp_measure_start s) = 0"
    "temp_c (temp_measure_start s) = temp_c s"
    "temp_temp_eight (temp_measure_start s) = temp_temp_eight s"
    "answer (temp_measure_start s) = answer s"
    "time (temp_measure_start s) = time s"
    by (simp_all add: temp_measure_start_def WRITE_def)
  show "temp_temp (poll_a_second evss (temp_measure_start s)) = captured evss"
    "conversion_done (poll_a_second evss (temp_measure_start s)) =
     (case first_edge (concat (take 25 evss)) of None \<Rightarrow> 0 | Some t \<Rightarrow> 1)"
    using poll_rounds_capture [OF z(1), of 25 evss] z(2)
    by (simp_all add: poll_a_second_def captured_def split: option.split)
  show "temp_c (poll_a_second evss (temp_measure_start s)) = temp_c s"
  "temp_temp_eight (poll_a_second evss (temp_measure_start s)) = temp_temp_eight s"
  "answer (poll_a_second evss (temp_measure_start s)) = answer s"
  "time (poll_a_second evss (temp_measure_start s)) = time s"
    using poll_rounds_frame [of 25 evss "temp_measure_start s"] z
    by (simp_all add: poll_a_second_def)
qed

lemma temp_measure_frame:
  "temp_temp (temp_measure cfg evss s) = captured evss"
  "answer (temp_measure cfg evss s) = answer s"
  "time (temp_measure cfg evss s) = time s"
  by (simp_all add: temp_measure_def temp_measure_smooth_def Let_def wait_result)

lemma temp_measure_eight:
  "TARGET_TEMPERATURE cfg < 7000 \<Longrightarrow>
   temp_temp_eight (temp_measure cfg evss s) = temp_temp_eight s - temp_c s + captured evss \<and>
   temp_c (temp_measure cfg evss s) = (temp_temp_eight s - temp_c s + captured evss) div 8"
  by (simp add: temp_measure_def temp_measure_smooth_def Let_def wait_result)

lemma temp_measure_two:
  "\<not> TARGET_TEMPERATURE cfg < 7000 \<Longrightarrow>
   temp_temp_eight (temp_measure cfg evss s) = temp_temp_eight s \<and>
   temp_c (temp_measure cfg evss s) = (captured evss + temp_c s + 1) div 2"
  by (simp add: temp_measure_def temp_measure_smooth_def Let_def wait_result)

lemma first_edge_None_iff: "first_edge evs = None \<longleftrightarrow> (\<forall>t. Edge t \<notin> set evs)"
  by (induction evs rule: first_edge.induct) auto

lemma regulate_frame:
  "time (regulate cfg s) = 0"
  "temp_c (regulate cfg s) = temp_c s"
  "temp_temp (regulate cfg s) = temp_temp s"
  "temp_temp_eight (regulate cfg s) = temp_temp_eight s"
  "conversion_done (regulate cfg s) = conversion_done s"
  "temp_last (answer (regulate cfg s)) = temp_c s"
  by (simp_all add: regulate_def Let_def motor_open_def motor_close_def WRITE_def delay_ms_def)

subsection \<open>The smoothing filters\<close>

text \<open>
  C2.  In a build with \<open>TARGET_TEMPERATURE < 7000\<close>, one call of \<open>temp_measure\<close>
  leaves \<open>temp_temp_eight = temp_temp_eight - temp_c + temp_temp\<close> (old accumulator,
  old smoothed value, the reading of this cycle) and \<open>temp_c = temp_temp_eight / 8\<close>,
  the division truncating.  The variables are \<open>uint16_t\<close>: the first two conjuncts
  are the equations in the arithmetic of the variables, the next three read them as
  integers, where the accumulator is the exact value reduced modulo 65536 and is the
  exact value whenever that lies in 0..65535.  The accumulator starts at
  \<open>8 * TARGET_TEMPERATURE\<close> and is still there when the main loop is entered.
\<close>

theorem eight_sample_update:
  assumes "TARGET_TEMPERATURE cfg < 7000"
  shows "let s' = temp_measure cfg evss s;
             exact = uint (temp_temp_eight s) - uint (temp_c s) + uint (temp_temp s') in
     temp_temp_eight s' = temp_temp_eight s - temp_c s + temp_temp s' \<and>
     temp_c s' = temp_temp_eight s' div 8 \<and>
     uint (temp_temp_eight s') = exact mod 65536 \<and>
     uint (temp_c s') = uint (temp_temp_eight s') div 8 \<and>
     (0 \<le> exact \<and> exact < 65536 \<longrightarrow>
        uint (temp_temp_eight s') = exact \<and> uint (temp_c s') = exact div 8) \<and>
     (0 \<le> TARGET_TEMPERATURE cfg \<longrightarrow>
        uint (temp_temp_eight (power_on cfg)) = 8 * TARGET_TEMPERATURE cfg) \<and>
     temp_temp_eight (main cfg []) = temp_temp_eight (power_on cfg)"
proof -
  define s' where "s' = temp_measure cfg evss s"
  define exact where "exact = uint (temp_temp_eight s) - uint (temp_c s) + uint (temp_temp s')"
  have raw: "temp_temp s' = captured evss"
    by (simp add: s'_def temp_measure_frame)
  have a: "temp_temp_eight s' = temp_temp_eight s - temp_c s + temp_temp s'"
    and b: "temp_c s' = temp_temp_eight s' div 8"
    using temp_measure_eight [OF assms, of evss s] by (simp_all add: s'_def raw [unfolded s'_def])
  have c: "uint (temp_temp_eight s') = exact mod 65536"
    unfolding a exact_def by (simp add: uint_word_ariths mod_simps)
  have d: "uint (temp_c s') = uint (temp_temp_eight s') div 8"
    unfolding b by (simp add: uint_div)
  have e: "0 \<le> exact \<and> exact < 65536 \<longrightarrow>
        uint (temp_temp_eight s') = exact \<and> uint (temp_c s') = exact div 8"
    using c d by simp
  have f: "0 \<le> TARGET_TEMPERATURE cfg \<longrightarrow>
        uint (temp_temp_eight (power_on cfg)) = 8 * TARGET_TEMPERATURE cfg"
  proof
    assume "0 \<le> TARGET_TEMPERATURE cfg"
    with assms have "(TARGET_TEMPERATURE cfg * 8) mod 65536 = TARGET_TEMPERATURE cfg * 8"
      by simp
    then have "uint (word_of_int (TARGET_TEMPERATURE cfg * 8) :: 16 word) = TARGET_TEMPERATURE cfg * 8"
      by (simp only: uint_word_of_int) simp
    with assms show "uint (temp_temp_eight (power_on cfg)) = 8 * TARGET_TEMPERATURE cfg"
      by (simp add: power_on_def)
  qed
  have g: "temp_temp_eight (main cfg []) = temp_temp_eight (power_on cfg)"
    by (simp add: main_def hardware_init_def motor_init_def temp_init_def WRITE_def
        SET_OUTPUT_def delay_ms_def)
  show ?thesis
    using a b c d e f g unfolding Let_def s'_def [symmetric] exact_def [symmetric] by blast
qed

text \<open>
  The scenario of the specification: accumulator 46400 (the initial value for the
  shipped target 5800), previous smoothed value 5800, reading 6000.
\<close>

theorem eight_sample_update_witness:
  "TARGET_TEMPERATURE source_config < 7000 \<and>
   temp_temp_eight (power_on source_config) = 46400 \<and>
   (let s' = temp_measure source_config [[Edge 6000]] ((power_on source_config)\<lparr>temp_c := 5800\<rparr>) in
      temp_temp s' = 6000 \<and> temp_temp_eight s' = 46600 \<and> temp_c s' = 5825)"
proof -
  have t: "TARGET_TEMPERATURE source_config < 7000" by (simp add: source_config_def)
  have r: "temp_temp (temp_measure source_config [[Edge 6000]]
      ((power_on source_config)\<lparr>temp_c := 5800\<rparr>)) = 6000"
    by (simp add: temp_measure_frame captured_def)
  show ?thesis
    using eight_sample_update [OF t, of "[[Edge 6000]]" "(power_on source_config)\<lparr>temp_c := 5800\<rparr>"] r
    by (simp add: Let_def power_on_def source_config_def)
qed

text \<open>
  C7, as the code has it.  In a build with \<open>TARGET_TEMPERATURE\<close> at or above 7000,
  one call of \<open>temp_measure\<close> leaves \<open>temp_c = (temp_temp + temp_c + 1) / 2\<close> in
  the 16-bit unsigned arithmetic of the two variables, the division truncating, and does
  not touch the accumulator.  Whenever reading + previous smoothed value + 1 is at most
  65535 this is the mean of the two rounded to the nearest integer, a tie rounded up;
  that is so in particular when both are at most 32767 (the source: "allows readings up
  to 32767"), and then the new smoothed value is at most 32767 again.  The new smoothed
  value is determined by the reading and the previous smoothed value: any other state
  and events with the same two values give the same result.
\<close>

theorem two_point_update:
  assumes "\<not> TARGET_TEMPERATURE cfg < 7000"
  shows "let s' = temp_measure cfg evss s;
             total = uint (temp_temp s') + uint (temp_c s) in
     temp_c s' = (temp_temp s' + temp_c s + 1) div 2 \<and>
     temp_temp_eight s' = temp_temp_eight s \<and>
     (total + 1 < 65536 \<longrightarrow>
        uint (temp_c s') = (total + 1) div 2 \<and>
        2 * uint (temp_c s') - 1 \<le> total \<and> total \<le> 2 * uint (temp_c s')) \<and>
     (temp_temp s' \<le> 32767 \<and> temp_c s \<le> 32767 \<longrightarrow>
        uint (temp_c s') = (total + 1) div 2 \<and> temp_c s' \<le> 32767) \<and>
     (\<forall>evss2 s2. temp_c s2 = temp_c s \<and> temp_temp (temp_measure cfg evss2 s2) = temp_temp s' \<longrightarrow>
        temp_c (temp_measure cfg evss2 s2) = temp_c s')"
proof -
  define s' where "s' = temp_measure cfg evss s"
  define total where "total = uint (temp_temp s') + uint (temp_c s)"
  have raw: "temp_temp (temp_measure cfg e t) = captured e" for e t
    by (simp add: temp_measure_frame)
  have a: "temp_c (temp_measure cfg e t) = (temp_temp (temp_measure cfg e t) + temp_c t + 1) div 2" for e t
    using temp_measure_two [OF assms, of e t] by (simp add: raw)
  have b: "temp_temp_eight s' = temp_temp_eight s"
    using temp_measure_two [OF assms, of evss s] by (simp add: s'_def)
  have c: "uint (temp_c s') = ((total + 1) mod 65536) div 2"
    unfolding s'_def a total_def by (simp add: uint_div uint_word_ariths mod_simps add_ac)
  have d: "total + 1 < 65536 \<longrightarrow>
        uint (temp_c s') = (total + 1) div 2 \<and>
        2 * uint (temp_c s') - 1 \<le> total \<and> total \<le> 2 * uint (temp_c s')"
  proof
    assume lt: "total + 1 < 65536"
    have "0 \<le> total" by (simp add: total_def)
    with lt have "(total + 1) mod 65536 = total + 1" by simp
    with c have "uint (temp_c s') = (total + 1) div 2" by simp
    then show "uint (temp_c s') = (total + 1) div 2 \<and>
        2 * uint (temp_c s') - 1 \<le> total \<and> total \<le> 2 * uint (temp_c s')"
      by presburger
  qed
  have e: "\<forall>evss2 s2. temp_c s2 = temp_c s \<and> temp_temp (temp_measure cfg evss2 s2) = temp_temp s' \<longrightarrow>
        temp_c (temp_measure cfg evss2 s2) = temp_c s'"
    by (simp add: a s'_def)
  have f: "temp_temp s' \<le> 32767 \<and> temp_c s \<le> 32767 \<longrightarrow>
        uint (temp_c s') = (total + 1) div 2 \<and> temp_c s' \<le> 32767"
  proof
    assume "temp_temp s' \<le> 32767 \<and> temp_c s \<le> 32767"
    then have r: "uint (temp_temp s') \<le> 32767" "uint (temp_c s) \<le> 32767"
      by (simp_all add: word_le_def)
    then have lt: "total + 1 < 65536" by (simp add: total_def)
    with d have v: "uint (temp_c s') = (total + 1) div 2" by blast
    with r have "uint (temp_c s') \<le> 32767" unfolding total_def by linarith
    then have "temp_c s' \<le> 32767" by (simp add: word_le_def)
    with v show "uint (temp_c s') = (total + 1) div 2 \<and> temp_c s' \<le> 32767" by blast
  qed
  show ?thesis
    using a [of evss s] b d e f unfolding Let_def s'_def [symmetric] total_def [symmetric]
    by blast
qed

text \<open>Reading 8201 on a smoothed value of 8100: the mean 8150.5 becomes 8151.\<close>

theorem two_point_update_witness:
  "\<not> TARGET_TEMPERATURE (source_config\<lparr>TARGET_TEMPERATURE := 8000\<rparr>) < 7000 \<and>
   (let cfg = source_config\<lparr>TARGET_TEMPERATURE := 8000\<rparr>;
        s' = temp_measure cfg [[Edge 8201]] ((power_on cfg)\<lparr>temp_c := 8100\<rparr>) in
      temp_temp s' = 8201 \<and> temp_c s' = 8151)"
proof -
  let ?cfg = "source_config\<lparr>TARGET_TEMPERATURE := 8000\<rparr>"
  have t: "\<not> TARGET_TEMPERATURE ?cfg < 7000" by (simp add: source_config_def)
  have r: "temp_temp (temp_measure ?cfg [[Edge 8201]] ((power_on ?cfg)\<lparr>temp_c := 8100\<rparr>)) = 8201"
    by (simp add: temp_measure_frame captured_def)
  show ?thesis
    using two_point_update [OF t, of "[[Edge 8201]]" "(power_on ?cfg)\<lparr>temp_c := 8100\<rparr>"] r t
    by (simp add: Let_def)
qed

text \<open>
  C7 as stated, for each update, fails.  A build with target 8000 (two-point filter)
  reads 40000 three times from power-on.  The smoothed value goes 20000, 30000, and the
  third update, whose mean is 35000, leaves 2232: the 16-bit sum 70001 wraps to 4465
  before it is halved.
\<close>

theorem two_point_wraps_counterexample:
  "let s2 = main scenario_config [[[Edge 40000]], [[Edge 40000]]];
       s3 = temp_measure scenario_config [[Edge 40000]] s2 in
     \<not> TARGET_TEMPERATURE scenario_config < 7000 \<and>
     temp_c s2 = 30000 \<and> temp_temp s3 = 40000 \<and>
     (uint (temp_temp s3) + uint (temp_c s2) + 1) div 2 = 35000 \<and>
     temp_c s3 = 2232 \<and>
     uint (temp_c s3) \<noteq> (uint (temp_temp s3) + uint (temp_c s2) + 1) div 2"
  by code_simp

lemma main_start:
  "temp_c (main cfg []) = 0" "temp_temp (main cfg []) = 0"
  "temp_temp_eight (main cfg []) = temp_temp_eight (power_on cfg)"
  "conversion_done (main cfg []) = 0" "time (main cfg []) = 0"
  "answer (main cfg []) = \<lparr>temp_last = 0, motor_moved = 0\<rparr>"
  by (simp_all add: main_def hardware_init_def motor_init_def temp_init_def WRITE_def
        SET_OUTPUT_def delay_ms_def power_on_def)

subsection \<open>A cycle without a comparator edge\<close>

text \<open>
  C5, as the code has it.  When none of the events of the 25 rounds of the wait is a
  comparator edge, \<open>conversion_done\<close> is still clear when the wait ends, and the
  reading the smoothing reads from \<open>temp_temp\<close> is zero: \<open>temp_measure\<close> clears
  \<open>temp_temp\<close> before it starts the measurement (\<open>temp_temp = 0;\<close>), so nothing of
  the previous cycle's reading is left.  The 8-value filter then only subtracts the old
  smoothed value from the accumulator; the two-point filter halves the old value.
\<close>

theorem no_edge_feeds_zero:
  assumes "\<forall>t. Edge t \<notin> set (concat (take 25 evss))"
  shows "let w = poll_a_second evss (temp_measure_start s); s' = temp_measure cfg evss s in
     conversion_done w = 0 \<and> temp_temp w = 0 \<and>
     s' = temp_measure_smooth cfg w \<and> conversion_done s' = 0 \<and>
     (if TARGET_TEMPERATURE cfg < 7000
      then temp_temp_eight s' = temp_temp_eight s - temp_c s \<and>
           temp_c s' = (temp_temp_eight s - temp_c s) div 8
      else temp_c s' = (temp_c s + 1) div 2)"
proof -
  have n: "first_edge (concat (take 25 evss)) = None"
    using assms by (simp add: first_edge_None_iff)
  have c: "captured evss = 0" by (simp add: captured_def n)
  have w: "conversion_done (poll_a_second evss (temp_measure_start s)) = 0"
    "temp_temp (poll_a_second evss (temp_measure_start s)) = 0"
    by (simp_all add: wait_result n c)
  have d: "conversion_done (temp_measure cfg evss s) = 0"
    by (simp add: temp_measure_def temp_measure_smooth_def Let_def w)
  show ?thesis
  proof (cases "TARGET_TEMPERATURE cfg < 7000")
    case True
    with temp_measure_eight [OF True, of evss s] w d show ?thesis
      by (simp add: Let_def c temp_measure_def)
  next
    case False
    with temp_measure_two [OF False, of evss s] w d show ?thesis
      by (simp add: Let_def c temp_measure_def)
  qed
qed

text \<open>
  After a cycle that captured 6000, a cycle in which only a host request arrives.
\<close>

theorem no_edge_feeds_zero_witness:
  "(let s1 = temp_measure source_config [[Edge 6000]] (main source_config []);
        w = poll_a_second [[UsbSetup []]] (temp_measure_start s1);
        s' = temp_measure source_config [[UsbSetup []]] s1 in
      temp_temp s1 = 6000 \<and> conversion_done w = 0 \<and> temp_temp w = 0 \<and>
      temp_temp_eight s' = 45850 \<and> temp_c s' = 5731)"
proof -
  have h: "\<forall>t. Edge t \<notin> set (concat (take 25 [[UsbSetup []]]))" by simp
  have t: "TARGET_TEMPERATURE source_config < 7000" by (simp add: source_config_def)
  let ?s1 = "temp_measure source_config [[Edge 6000]] (main source_config [])"
  have s1: "temp_temp ?s1 = 6000" "temp_temp_eight ?s1 = 52400" "temp_c ?s1 = 6550"
    using temp_measure_eight [OF t, of "[[Edge 6000]]" "main source_config []"]
    by (simp_all add: temp_measure_frame captured_def main_start power_on_def source_config_def)
  show ?thesis
    using no_edge_feeds_zero [OF h, of ?s1 source_config] s1 t
    by (simp add: Let_def temp_measure_def)
qed

text \<open>
  C5 as stated fails.  The first cycle after power-on captures 6000; in the second no
  edge arrives.  The guard stays clear, but the reading handed to the filter is not the
  6000 of the previous cycle: the smoothed value becomes 5731, the result for a reading
  of zero, where the stale reading would have given 6481.
\<close>

theorem stale_reading_counterexample:
  "let s1 = temp_measure source_config [[Edge 6000]] (main source_config []);
       w = poll_a_second [] (temp_measure_start s1);
       s2 = temp_measure source_config [] s1 in
     temp_temp s1 = 6000 \<and> conversion_done w = 0 \<and> temp_temp w \<noteq> temp_temp s1 \<and>
     temp_c s2 = 5731 \<and> (temp_temp_eight s1 - temp_c s1 + temp_temp s1) div 8 = 6481"
proof -
  have t: "TARGET_TEMPERATURE source_config < 7000" by (simp add: source_config_def)
  let ?s1 = "temp_measure source_config [[Edge 6000]] (main source_config [])"
  have s1: "temp_temp ?s1 = 6000" "temp_temp_eight ?s1 = 52400" "temp_c ?s1 = 6550"
    using temp_measure_eight [OF t, of "[[Edge 6000]]" "main source_config []"]
    by (simp_all add: temp_measure_frame captured_def main_start power_on_def source_config_def)
  have w: "conversion_done (poll_a_second [] (temp_measure_start ?s1)) = 0"
    "temp_temp (poll_a_second [] (temp_measure_start ?s1)) = 0"
    by (simp_all add: wait_result captured_def)
  have s2: "temp_c (temp_measure source_config [] ?s1) = 5731"
    using temp_measure_eight [OF t, of "[]" ?s1] by (simp add: s1 captured_def)
  show ?thesis using s1 w s2 by (simp add: Let_def)
qed

subsection \<open>The cycle scheduler\<close>

text \<open>
  What the regulation block does with its prediction, in the code's own unsigned
  comparisons: the marker and the output are those of the action selected.
\<close>

lemma regulate_selected:
  "let tf = temp_future cfg s;
       a = (if tf < word_of_int (TARGET_TEMPERATURE cfg - THERMISTOR_HYSTERESIS cfg) then Close
            else if word_of_int (TARGET_TEMPERATURE cfg + THERMISTOR_HYSTERESIS cfg) < tf then Open
            else NoMove)
   in motor_moved (answer (regulate cfg s)) = marker a \<and>
      trace (regulate cfg s) = trace s @ pulse cfg a"
  by (simp add: regulate_def Let_def motor_open_def motor_close_def WRITE_def delay_ms_def
      del: of_int_add of_int_diff)

text \<open>
  C4.  One pass of the main loop runs a measurement and then increments \<open>time\<close>.
  When the incremented counter exceeds \<open>RADIATOR_RESPONSE_TIME\<close> a decision is taken:
  the pass is the regulation step applied to the measured state; it compares the
  prediction made from the measured smoothed value with the two thresholds, stores the
  marker of the action selected and appends that action's pulse (or nothing) to the
  output of the measurement; afterwards \<open>time\<close> is zero and \<open>answer.temp_last\<close> is
  the smoothed value the measurement produced, which is the one the prediction used.
  Otherwise no decision is taken: the pass is the measurement with the counter
  incremented and nothing else, \<open>answer\<close> (last observed temperature and motor marker)
  is untouched and the output is that of the measurement.
  The counter is a \<open>uint16_t\<close>, so the increment of 65535 is 0.
\<close>

theorem cycle_counter_gate:
  "let s1 = temp_measure cfg evss s;
       s2 = s1\<lparr>time := time s + 1\<rparr>;
       s' = main_loop_body cfg evss s;
       tf = temp_future cfg s1;
       a = (if tf < word_of_int (TARGET_TEMPERATURE cfg - THERMISTOR_HYSTERESIS cfg) then Close
            else if word_of_int (TARGET_TEMPERATURE cfg + THERMISTOR_HYSTERESIS cfg) < tf then Open
            else NoMove) in
     (if RADIATOR_RESPONSE_TIME cfg < uint (time s + 1)
      then s' = regulate cfg s2 \<and> time s' = 0 \<and>
           temp_last (answer s') = temp_c s1 \<and> temp_c s' = temp_c s1 \<and>
           motor_moved (answer s') = marker a \<and>
           trace s' = trace s1 @ pulse cfg a
      else s' = s2 \<and> time s' = time s + 1 \<and>
           answer s' = answer s \<and> trace s' = trace s1)"
proof -
  define s1 where "s1 = temp_measure cfg evss s"
  define s2 where "s2 = s1\<lparr>time := time s + 1\<rparr>"
  have b: "main_loop_body cfg evss s =
      (if RADIATOR_RESPONSE_TIME cfg < uint (time s + 1) then regulate cfg s2 else s2)"
    by (simp add: main_loop_body_def Let_def s1_def s2_def temp_measure_frame)
  have f: "temp_future cfg s2 = temp_future cfg s1" "trace s2 = trace s1"
    "answer s2 = answer s" "temp_c s2 = temp_c s1" "time s2 = time s + 1"
    by (simp_all add: s2_def s1_def temp_future_def temp_measure_frame)
  show ?thesis
    using regulate_selected [of cfg s2]
    unfolding Let_def s1_def [symmetric] s2_def [symmetric] b
    by (simp add: f regulate_frame del: of_int_add of_int_diff)
qed

text \<open>
  The first pass after power-on reading 6000: with the shipped response time of 120 no
  decision is taken; with a response time of 0 the prediction is 5 * 6550 = 32750,
  above 5850, and the pass ends with an open pulse, the marker \<open>'+'\<close>, the counter
  at zero and 6550 as last observed temperature.
\<close>

theorem cycle_counter_gate_witness:
  "(let a = main_loop_body source_config [[Edge 6000]] (main source_config []);
        b = main_loop_body hasty [[Edge 6000]] (main hasty []) in
      time a = 1 \<and> answer a = \<lparr>temp_last = 0, motor_moved = 0\<rparr> \<and>
      trace a = trace (temp_measure source_config [[Edge 6000]] (main source_config [])) \<and>
      time b = 0 \<and> temp_c b = 6550 \<and>
      temp_last (answer b) = 6550 \<and> motor_moved (answer b) = CHR_PLUS \<and>
      trace b = trace (temp_measure hasty [[Edge 6000]] (main hasty [])) @
        [Write MOT_OPEN True, DelayMs 200, Write MOT_OPEN False])"
proof -
  let ?a = "main_loop_body source_config [[Edge 6000]] (main source_config [])"
  let ?b = "main_loop_body hasty [[Edge 6000]] (main hasty [])"
  let ?m = "temp_measure hasty [[Edge 6000]] (main hasty [])"
  let ?sel = "if temp_future hasty ?m
        < word_of_int (TARGET_TEMPERATURE hasty - THERMISTOR_HYSTERESIS hasty) then Close
      else if word_of_int (TARGET_TEMPERATURE hasty + THERMISTOR_HYSTERESIS hasty)
        < temp_future hasty ?m then Open
      else NoMove"
  have t: "TARGET_TEMPERATURE hasty < 7000"
    by (simp add: hasty_def source_config_def)
  have r: "RADIATOR_RESPONSE_TIME hasty = 0" "RADIATOR_RESPONSE_TIME source_config = 120"
    "MOT_OPEN_TIME hasty = 200"
    "TARGET_TEMPERATURE hasty = 5800" "THERMISTOR_HYSTERESIS hasty = 50"
    "PREDICTION_STEEPNESS hasty = 4"
    by (simp_all add: hasty_def source_config_def)
  have m: "temp_c ?m = 6550" "answer ?m = \<lparr>temp_last = 0, motor_moved = 0\<rparr>"
    using temp_measure_eight [OF t, of "[[Edge 6000]]" "main hasty []"]
    by (simp_all add: captured_def main_start power_on_def temp_measure_frame r)
  have tf: "temp_future hasty ?m = 32750"
    by (simp add: temp_future_def m r)
  have sel: "?sel = Open" by (simp add: tf r)
  have due: "RADIATOR_RESPONSE_TIME hasty < uint (time (main hasty []) + 1)"
    "\<not> RADIATOR_RESPONSE_TIME source_config < uint (time (main source_config []) + 1)"
    by (simp_all add: r main_start)
  have "time ?b = 0 \<and> temp_last (answer ?b) = temp_c ?m \<and> temp_c ?b = temp_c ?m \<and>
      motor_moved (answer ?b) = marker ?sel \<and> trace ?b = trace ?m @ pulse hasty ?sel"
    using cycle_counter_gate [of hasty "[[Edge 6000]]" "main hasty []",
        unfolded Let_def if_P [OF due(1)]]
    by blast
  then have b: "time ?b = 0" "temp_last (answer ?b) = 6550" "temp_c ?b = 6550"
    "motor_moved (answer ?b) = CHR_PLUS"
    "trace ?b = trace ?m @ [Write MOT_OPEN True, DelayMs 200, Write MOT_OPEN False]"
    unfolding sel m by (simp_all add: r)
  have "time ?a = time (main source_config []) + 1 \<and> answer ?a = answer (main source_config []) \<and>
      trace ?a = trace (temp_measure source_config [[Edge 6000]] (main source_config []))"
    using cycle_counter_gate [of source_config "[[Edge 6000]]" "main source_config []",
        unfolded Let_def if_not_P [OF due(2)]]
    by blast
  then have a: "time ?a = 1" "answer ?a = \<lparr>temp_last = 0, motor_moved = 0\<rparr>"
    "trace ?a = trace (temp_measure source_config [[Edge 6000]] (main source_config []))"
    by (simp_all add: main_start)
  show ?thesis unfolding Let_def using a b by blast
qed

subsection \<open>The status request\<close>

text \<open>
  C10.  In the build without \<open>CAN_AFFORD_USB_COMMANDS\<close>, \<open>usbFunctionSetup\<close>
  returns the length 3 and changes nothing but the driver's reply pointer, which it
  points at \<open>answer\<close>: restoring the pointer gives the state back.  So a request, any
  sequence of requests and comparator edges, and a whole measurement leave \<open>answer\<close>,
  with its motor marker, as it was; over a pass of the main loop the marker can only
  change when the pass takes a regulation decision.
\<close>

theorem status_fetch_frame:
  "usbFunctionSetup data s = (3, s\<lparr>usbMsgPtr := AnswerPtr\<rparr>) \<and>
   (snd (usbFunctionSetup data s))\<lparr>usbMsgPtr := usbMsgPtr s\<rparr> = s \<and>
   answer (handle_event (UsbSetup data) s) = answer s \<and>
   answer (fold handle_event evs s) = answer s \<and>
   answer (temp_measure cfg evss s) = answer s \<and>
   (\<not> RADIATOR_RESPONSE_TIME cfg < uint (time s + 1) \<longrightarrow>
      answer (main_loop_body cfg evss s) = answer s)"
  by (simp add: usbFunctionSetup_def fold_handle_event_frame temp_measure_frame
      main_loop_body_def Let_def)

text \<open>
  The first pass after power-on, shipped calibration, with two host requests: no
  decision is due and the marker keeps its initial value.
\<close>

theorem status_fetch_frame_witness:
  "\<not> RADIATOR_RESPONSE_TIME source_config < uint (time (main source_config []) + 1) \<and>
   motor_moved (answer (main_loop_body source_config
      [[UsbSetup [0, 99, 0, 0, 0, 0, 0, 0], Edge 6000], [UsbSetup [0, 99, 0, 0, 0, 0, 0, 0]]]
      (main source_config []))) = 0"
  using status_fetch_frame [of "[]" "main source_config []" "[]" source_config
      "[[UsbSetup [0, 99, 0, 0, 0, 0, 0, 0], Edge 6000], [UsbSetup [0, 99, 0, 0, 0, 0, 0, 0]]]"]
  by (simp add: main_start source_config_def)

subsection \<open>The regulation decision\<close>

lemma temp_future_word:
  "temp_future cfg s =
     word_of_int (spec_predicted cfg (uint (temp_c s)) (uint (temp_last (answer s))))"
  by (simp add: temp_future_def spec_predicted_def)

lemma temp_future_mod:
  "uint (temp_future cfg s) =
     spec_predicted cfg (uint (temp_c s)) (uint (temp_last (answer s))) mod 65536"
  by (simp add: temp_future_word uint_word_of_int)

lemma threshold_uint:
  assumes "config_ok cfg"
  shows "uint (word_of_int (TARGET_TEMPERATURE cfg - THERMISTOR_HYSTERESIS cfg) :: 16 word) =
           TARGET_TEMPERATURE cfg - THERMISTOR_HYSTERESIS cfg"
    and "uint (word_of_int (TARGET_TEMPERATURE cfg + THERMISTOR_HYSTERESIS cfg) :: 16 word) =
           TARGET_TEMPERATURE cfg + THERMISTOR_HYSTERESIS cfg"
proof -
  have "0 \<le> TARGET_TEMPERATURE cfg - THERMISTOR_HYSTERESIS cfg"
    "TARGET_TEMPERATURE cfg - THERMISTOR_HYSTERESIS cfg < 65536"
    "0 \<le> TARGET_TEMPERATURE cfg + THERMISTOR_HYSTERESIS cfg"
    "TARGET_TEMPERATURE cfg + THERMISTOR_HYSTERESIS cfg < 65536"
    using assms by (simp_all add: config_ok_def)
  then show "uint (word_of_int (TARGET_TEMPERATURE cfg - THERMISTOR_HYSTERESIS cfg) :: 16 word) =
           TARGET_TEMPERATURE cfg - THERMISTOR_HYSTERESIS cfg"
    and "uint (word_of_int (TARGET_TEMPERATURE cfg + THERMISTOR_HYSTERESIS cfg) :: 16 word) =
           TARGET_TEMPERATURE cfg + THERMISTOR_HYSTERESIS cfg"
    by (simp_all only: uint_word_of_int) simp_all
qed

lemma regulate_by_select:
  assumes "config_ok cfg"
  shows "motor_moved (answer (regulate cfg s)) = marker (spec_select cfg (uint (temp_future cfg s))) \<and>
         trace (regulate cfg s) = trace s @ pulse cfg (spec_select cfg (uint (temp_future cfg s)))"
  by (simp add: regulate_def Let_def spec_select_def word_less_def threshold_uint [OF assms]
      motor_open_def motor_close_def WRITE_def delay_ms_def del: of_int_add of_int_diff)

text \<open>
  As long as the exact prediction lies in 0..65535 the variable \<open>temp_future\<close> holds
  it and the regulation block follows the rule of the specification.
\<close>

lemma regulate_in_range:
  assumes "config_ok cfg"
    and "0 \<le> spec_predicted cfg (uint (temp_c s)) (uint (temp_last (answer s)))"
    and "spec_predicted cfg (uint (temp_c s)) (uint (temp_last (answer s))) \<le> 65535"
  shows "let p = spec_predicted cfg (uint (temp_c s)) (uint (temp_last (answer s))) in
     uint (temp_future cfg s) = p \<and>
     motor_moved (answer (regulate cfg s)) = marker (spec_select cfg p) \<and>
     trace (regulate cfg s) = trace s @ pulse cfg (spec_select cfg p)"
proof -
  define p where "p = spec_predicted cfg (uint (temp_c s)) (uint (temp_last (answer s)))"
  have "p mod 65536 = p" using assms(2,3) by (simp add: p_def)
  then have "uint (temp_future cfg s) = p" by (simp add: temp_future_mod p_def)
  with regulate_by_select [OF assms(1), of s] show ?thesis
    by (simp add: Let_def p_def)
qed

text \<open>
  Scenario 2 of the specification: the prediction is 7500, below 7950, and the code
  runs \<open>motor_close\<close> and stores \<open>'-'\<close>, as the rule says (the text of the
  scenario names the opposite direction).
\<close>

lemma config_ok_scenario: "config_ok scenario_config"
  by (simp add: config_ok_def scenario_config_def source_config_def)

lemma regulate_scenario2:
  "spec_predicted scenario_config (uint (temp_c scenario2)) (uint (temp_last (answer scenario2))) = 7500 \<and>
   uint (temp_future scenario_config scenario2) = 7500 \<and>
   motor_moved (answer (regulate scenario_config scenario2)) = CHR_MINUS \<and>
   trace (regulate scenario_config scenario2) =
     [Write MOT_CLOSE True, DelayMs 400, Write MOT_CLOSE False]"
proof -
  have p: "spec_predicted scenario_config (uint (temp_c scenario2))
      (uint (temp_last (answer scenario2))) = 7500"
    by (simp add: spec_predicted_def scenario2_def scenario_config_def source_config_def)
  have "0 \<le> spec_predicted scenario_config (uint (temp_c scenario2))
      (uint (temp_last (answer scenario2)))"
    "spec_predicted scenario_config (uint (temp_c scenario2))
      (uint (temp_last (answer scenario2))) \<le> 65535"
    by (simp_all add: p)
  from regulate_in_range [OF config_ok_scenario this] p
  show ?thesis
    by (simp add: Let_def spec_select_def scenario_config_def source_config_def
        scenario2_def power_on_def)
qed

lemma config_ok_source: "config_ok source_config"
  by (simp add: config_ok_def source_config_def)

text \<open>
  The neighbouring input: shipped calibration, smoothed value 4000, last observed 5000.
  The prediction is 0 and the code closes.
\<close>

lemma regulate_zero_prediction_closes:
  "motor_moved (answer (regulate source_config
     ((power_on source_config)\<lparr>temp_c := 4000,
        answer := \<lparr>temp_last = 5000, motor_moved = CHR_PLUS\<rparr>\<rparr>))) = CHR_MINUS"
proof -
  let ?s = "(power_on source_config)\<lparr>temp_c := 4000,
        answer := \<lparr>temp_last = 5000, motor_moved = CHR_PLUS\<rparr>\<rparr>"
  have p: "spec_predicted source_config (uint (temp_c ?s)) (uint (temp_last (answer ?s))) = 0"
    by (simp add: spec_predicted_def source_config_def)
  have "0 \<le> spec_predicted source_config (uint (temp_c ?s)) (uint (temp_last (answer ?s)))"
    "spec_predicted source_config (uint (temp_c ?s)) (uint (temp_last (answer ?s))) \<le> 65535"
    by (simp_all only: p)
  from regulate_in_range [OF config_ok_source this]
  show ?thesis
    by (simp only: Let_def p) (simp add: spec_select_def source_config_def)
qed

text \<open>A pass, and a run of passes, on the variables alone.\<close>

lemma temp_measure_vars:
  "temp_temp_eight (temp_measure cfg evss s) =
     (if TARGET_TEMPERATURE cfg < 7000 then temp_temp_eight s - temp_c s + captured evss
      else temp_temp_eight s)"
  "temp_c (temp_measure cfg evss s) =
     (if TARGET_TEMPERATURE cfg < 7000 then (temp_temp_eight s - temp_c s + captured evss) div 8
      else (captured evss + temp_c s + 1) div 2)"
  using temp_measure_eight [of cfg evss s] temp_measure_two [of cfg evss s] by simp_all

lemma regulate_answer:
  "answer (regulate cfg s) =
     \<lparr>temp_last = temp_c s,
      motor_moved = marker
        (if temp_future cfg s < word_of_int (TARGET_TEMPERATURE cfg - THERMISTOR_HYSTERESIS cfg)
         then Close
         else if word_of_int (TARGET_TEMPERATURE cfg + THERMISTOR_HYSTERESIS cfg) < temp_future cfg s
         then Open
         else NoMove)\<rparr>"
  by (simp add: regulate_def Let_def motor_open_def motor_close_def WRITE_def delay_ms_def
      del: of_int_add of_int_diff)

lemma body_vars: "vars (main_loop_body cfg evss s) = pass_vars cfg (captured evss) (vars s)"
  by (simp add: vars_def pass_vars_def main_loop_body_def Let_def regulate_frame regulate_answer
      temp_measure_vars temp_measure_frame temp_future_def del: of_int_add of_int_diff)

lemma main_loop_vars:
  "vars (main_loop cfg passes s) = fold (pass_vars cfg) (map captured passes) (vars s)"
  by (induction passes arbitrary: s) (simp_all add: body_vars)

lemma warm_up_vars:
  "vars (main source_config warm_up) =
     (32007, 4000, 120, \<lparr>temp_last = 5001, motor_moved = CHR_PLUS\<rparr>)"
proof -
  have c: "captured [[Edge 5001]] = 5001" "captured [[Edge 4000]] = 4000"
    by (simp_all add: captured_def)
  have m: "map captured warm_up = replicate 121 5001 @ replicate 120 4000"
    by (simp add: warm_up_def c)
  have 0: "vars (main source_config []) = (46400, 0, 0, \<lparr>temp_last = 0, motor_moved = 0\<rparr>)"
    by (simp add: vars_def main_start power_on_def source_config_def)
  have "fold (pass_vars source_config) (replicate 121 5001 @ replicate 120 4000)
      (46400, 0, 0, \<lparr>temp_last = 0, motor_moved = 0\<rparr>) =
      (32007, 4000, 120, \<lparr>temp_last = 5001, motor_moved = CHR_PLUS\<rparr>)"
    by code_simp
  with m 0 show ?thesis
    using main_loop_vars [of source_config warm_up "main source_config []"]
    by (simp add: main_def)
qed

text \<open>
  C1 is what the source intends ("Take care of the sign", "the valve actuated to get
  this future value into the hysteresis corridor"), and the code breaks it.  The shipped
  build, from power-on, reads 5001 for 121 passes and then 4000: at the second
  decision, in pass 242, the smoothed value is 4000 and the last observed one 5001.
  The signed prediction is 4000 + 4 * (4000 - 5001) = -4, below 5750, so the rule
  selects Close.  The code stores the prediction in the \<open>uint16_t temp_future\<close>, where
  it reads 65532, finds it above 5850, runs \<open>motor_open\<close> and stores \<open>'+'\<close>: the
  valve is opened further while the radiator heats up.
\<close>

theorem regulate_opens_on_negative_prediction:
  "let s = main source_config warm_up;
       s1 = temp_measure source_config [[Edge 4000]] s;
       s' = main_loop_body source_config [[Edge 4000]] s in
     config_ok source_config \<and>
     time s = 120 \<and> temp_c s1 = 4000 \<and> temp_last (answer s1) = 5001 \<and>
     spec_predicted source_config (uint (temp_c s1)) (uint (temp_last (answer s1))) = - 4 \<and>
     spec_select source_config (- 4) = Close \<and>
     uint (temp_future source_config s1) = 65532 \<and>
     motor_moved (answer s') = CHR_PLUS \<and>
     motor_moved (answer s') \<noteq> marker Close \<and>
     trace s' = trace s1 @ [Write MOT_OPEN True, DelayMs 200, Write MOT_OPEN False]"
proof -
  define s where "s = main source_config warm_up"
  define s1 where "s1 = temp_measure source_config [[Edge 4000]] s"
  define s2 where "s2 = s1\<lparr>time := time s1 + 1\<rparr>"
  have t: "TARGET_TEMPERATURE source_config < 7000" by (simp add: source_config_def)
  have v: "temp_temp_eight s = 32007" "temp_c s = 4000" "time s = 120"
    "answer s = \<lparr>temp_last = 5001, motor_moved = CHR_PLUS\<rparr>"
    using warm_up_vars by (simp_all add: vars_def s_def)
  have c: "captured [[Edge 4000]] = 4000" by (simp add: captured_def)
  have m: "temp_c s1 = 4000" "temp_last (answer s1) = 5001" "time s1 = 120"
    using temp_measure_eight [OF t, of "[[Edge 4000]]" s]
    by (simp_all add: s1_def temp_measure_frame v c)
  have m2: "temp_c s2 = 4000" "temp_last (answer s2) = 5001" "trace s2 = trace s1"
    by (simp_all add: s2_def m)
  have p: "spec_predicted source_config (uint (temp_c s1)) (uint (temp_last (answer s1))) = - 4"
    "spec_predicted source_config (uint (temp_c s2)) (uint (temp_last (answer s2))) = - 4"
    by (simp_all add: spec_predicted_def m m2 source_config_def)
  have f: "uint (temp_future source_config s1) = 65532"
    "uint (temp_future source_config s2) = 65532"
    by (simp_all add: temp_future_mod p)
  have sel: "spec_select source_config 65532 = Open" "spec_select source_config (- 4) = Close"
    by (simp_all add: spec_select_def source_config_def)
  have b: "main_loop_body source_config [[Edge 4000]] s = regulate source_config s2"
  proof -
    have "RADIATOR_RESPONSE_TIME source_config < uint (time s2)"
      by (simp add: s2_def m source_config_def)
    then show ?thesis
      unfolding main_loop_body_def Let_def s1_def [symmetric] s2_def [symmetric]
      by (rule if_P)
  qed
  have o: "MOT_OPEN_TIME source_config = 200" by (simp add: source_config_def)
  from regulate_by_select [OF config_ok_source, of s2]
  have r: "motor_moved (answer (regulate source_config s2)) = CHR_PLUS"
    "trace (regulate source_config s2) =
       trace s1 @ [Write MOT_OPEN True, DelayMs 200, Write MOT_OPEN False]"
    by (simp_all add: f sel m2 o)
  show ?thesis
    unfolding Let_def s_def [symmetric] s1_def [symmetric] b
    using config_ok_source v(3) m(1,2) p(1) sel(2) f(1) r by simp
qed

subsection \<open>Arithmetic of the two filters\<close>

lemma div8_bounds:
  fixes a :: int
  shows "8 * (a div 8) \<le> a \<and> a < 8 * (a div 8) + 8"
proof -
  have "a = 8 * (a div 8) + a mod 8" by simp
  moreover have "0 \<le> a mod 8" "a mod 8 < 8" by simp_all
  ultimately show ?thesis by linarith
qed

lemma div8_eqI:
  fixes a q :: int
  assumes "8 * q \<le> a" "a < 8 * q + 8"
  shows "a div 8 = q"
  using assms div8_bounds [of a] by linarith

lemma div8_le:
  fixes a q :: int
  shows "a < 8 * q + 8 \<Longrightarrow> a div 8 \<le> q" and "8 * q \<le> a \<Longrightarrow> q \<le> a div 8"
  using div8_bounds [of a] by linarith+

lemma eight_step_between:
  fixes a c v :: int
  assumes "c = a div 8"
  shows "min c v \<le> (a - c + v) div 8 \<and> (a - c + v) div 8 \<le> max c v"
proof (cases "c \<le> v")
  case True
  have "8 * c \<le> a - c + v" "a - c + v < 8 * v + 8"
    using True assms div8_bounds [of a] by linarith+
  with div8_le [of "a - c + v" v] div8_le(2) [of c "a - c + v"] True show ?thesis
    by (simp add: min_def max_def)
next
  case False
  have "8 * v \<le> a - c + v" "a - c + v < 8 * c + 8"
    using False assms div8_bounds [of a] by linarith+
  with div8_le [of "a - c + v" c] div8_le(2) [of v "a - c + v"] False show ?thesis
    by (simp add: min_def max_def)
qed

lemma eight_step_fits:
  fixes a c v :: int
  assumes "c = a div 8" "0 \<le> a" "a < 65536" "0 \<le> v" "v < 8192"
  shows "0 \<le> a - c + v \<and> a - c + v < 65536"
  using assms div8_bounds [of a] by linarith

lemma eight_step_gap:
  fixes a v :: int
  assumes "a div 8 \<noteq> v"
  shows "(a - a div 8 + v) div 8 = v \<or> \<bar>(a - a div 8 + v) - 8 * v\<bar> < \<bar>a - 8 * v\<bar>"
  using assms div8_bounds [of a] by linarith

lemma two_step_below:
  fixes c v :: int
  assumes "c \<le> v"
  shows "(v + c + 1) div 2 \<le> v \<and> (c < v \<longrightarrow> c < (v + c + 1) div 2)"
  using assms by linarith

lemma two_step_above:
  fixes c v :: int
  assumes "v < c"
  shows "v < (v + c + 1) div 2 \<and> (v + c + 1) div 2 \<le> c \<and> (v + 1 < c \<longrightarrow> (v + c + 1) div 2 < c)"
  using assms by linarith

subsection \<open>Bounds of the 8-value filter\<close>

lemma body_filter:
  "temp_c (main_loop_body cfg evss s) = temp_c (temp_measure cfg evss s)"
  "temp_temp_eight (main_loop_body cfg evss s) = temp_temp_eight (temp_measure cfg evss s)"
  by (simp_all add: main_loop_body_def Let_def regulate_frame)

lemma eight_pass:
  assumes "TARGET_TEMPERATURE cfg < 7000"
  shows "temp_temp_eight (main_loop_body cfg evss s) = temp_temp_eight s - temp_c s + captured evss"
    and "temp_c (main_loop_body cfg evss s) = temp_temp_eight (main_loop_body cfg evss s) div 8"
  using temp_measure_eight [OF assms, of evss s] by (simp_all add: body_filter)

lemma eight_pass_exact:
  assumes "TARGET_TEMPERATURE cfg < 7000"
    and "temp_c s = temp_temp_eight s div 8"
    and "captured evss < 8192"
  shows "uint (temp_temp_eight (main_loop_body cfg evss s)) =
           uint (temp_temp_eight s) - uint (temp_c s) + uint (captured evss)"
proof -
  have c: "uint (temp_c s) = uint (temp_temp_eight s) div 8"
    by (simp add: assms(2) uint_div)
  have v: "uint (captured evss) < 8192"
    using assms(3) by (simp add: word_less_def)
  have "0 \<le> uint (temp_temp_eight s)" "uint (temp_temp_eight s) < 65536" "0 \<le> uint (captured evss)"
    using uint_lt2p [of "temp_temp_eight s"] by simp_all
  from eight_step_fits [OF c this v]
  have "(uint (temp_temp_eight s) - uint (temp_c s) + uint (captured evss)) mod 65536 =
        uint (temp_temp_eight s) - uint (temp_c s) + uint (captured evss)"
    by simp
  then show ?thesis
    by (simp add: eight_pass(1) [OF assms(1)] uint_word_ariths mod_simps)
qed

lemma eight_pass_between:
  assumes "TARGET_TEMPERATURE cfg < 7000"
    and "temp_c s = temp_temp_eight s div 8"
    and "captured evss < 8192"
  shows "min (temp_c s) (captured evss) \<le> temp_c (main_loop_body cfg evss s)"
    and "temp_c (main_loop_body cfg evss s) \<le> max (temp_c s) (captured evss)"
proof -
  let ?s' = "main_loop_body cfg evss s"
  have c: "uint (temp_c s) = uint (temp_temp_eight s) div 8"
    by (simp add: assms(2) uint_div)
  have "uint (temp_c ?s') = uint (temp_temp_eight ?s') div 8"
    by (simp add: eight_pass(2) [OF assms(1)] uint_div)
  then have e: "uint (temp_c ?s') =
      (uint (temp_temp_eight s) - uint (temp_c s) + uint (captured evss)) div 8"
    by (simp add: eight_pass_exact [OF assms])
  from eight_step_between [OF c, of "uint (captured evss)"] e
  have "min (uint (temp_c s)) (uint (captured evss)) \<le> uint (temp_c ?s')"
    "uint (temp_c ?s') \<le> max (uint (temp_c s)) (uint (captured evss))"
    by simp_all
  then show "min (temp_c s) (captured evss) \<le> temp_c ?s'"
    and "temp_c ?s' \<le> max (temp_c s) (captured evss)"
    by (simp_all add: min_def max_def word_le_def split: if_splits)
qed

lemma eight_run_between:
  assumes "TARGET_TEMPERATURE cfg < 7000"
  shows "temp_c s = temp_temp_eight s div 8 \<Longrightarrow> \<forall>evss\<in>set passes. captured evss < 8192 \<Longrightarrow>
     temp_c (main_loop cfg passes s) = temp_temp_eight (main_loop cfg passes s) div 8 \<and>
     (\<exists>lo\<in>set (temp_c s # map captured passes). lo \<le> temp_c (main_loop cfg passes s)) \<and>
     (\<exists>hi\<in>set (temp_c s # map captured passes). temp_c (main_loop cfg passes s) \<le> hi)"
proof (induction passes arbitrary: s)
  case Nil
  then show ?case by simp
next
  case (Cons evss passes)
  let ?s1 = "main_loop_body cfg evss s"
  have r: "captured evss < 8192" and rest: "\<forall>e\<in>set passes. captured e < 8192"
    using Cons.prems(2) by simp_all
  have c1: "temp_c ?s1 = temp_temp_eight ?s1 div 8"
    by (rule eight_pass(2) [OF assms])
  note ih = Cons.IH [OF c1 rest]
  note b = eight_pass_between [OF assms Cons.prems(1) r]
  have lo1: "\<exists>lo\<in>set (temp_c s # map captured (evss # passes)). lo \<le> temp_c ?s1"
    using b(1) by (auto simp: min_def split: if_splits)
  have hi1: "\<exists>hi\<in>set (temp_c s # map captured (evss # passes)). temp_c ?s1 \<le> hi"
    using b(2) by (auto simp: max_def split: if_splits)
  from ih obtain lo where lo: "lo \<in> set (temp_c ?s1 # map captured passes)"
    "lo \<le> temp_c (main_loop cfg passes ?s1)" by blast
  from ih obtain hi where hi: "hi \<in> set (temp_c ?s1 # map captured passes)"
    "temp_c (main_loop cfg passes ?s1) \<le> hi" by blast
  have L: "\<exists>lo\<in>set (temp_c s # map captured (evss # passes)).
      lo \<le> temp_c (main_loop cfg passes ?s1)"
  proof (cases "lo = temp_c ?s1")
    case True
    with lo1 lo(2) show ?thesis by (meson order_trans)
  next
    case False
    with lo show ?thesis by auto
  qed
  have H: "\<exists>hi\<in>set (temp_c s # map captured (evss # passes)).
      temp_c (main_loop cfg passes ?s1) \<le> hi"
  proof (cases "hi = temp_c ?s1")
    case True
    with hi1 hi(2) show ?thesis by (meson order_trans)
  next
    case False
    with hi show ?thesis by auto
  qed
  from ih L H show ?case by simp
qed

text \<open>
  C6, as the code has it.  The filter is not a window over the last eight readings: the
  accumulator gives up an eighth of itself for each new reading, so every earlier
  reading keeps a (shrinking) weight.  What holds: in a build with
  \<open>TARGET_TEMPERATURE < 7000\<close>, started where \<open>temp_c\<close> is an eighth of the
  accumulator and fed readings below 8192, the smoothed value after any number of
  passes lies between the least and the greatest of the readings of these passes and the
  smoothed value before them, with no rounding slack.  For one pass this is: between
  the previous smoothed value and the new reading.
\<close>

theorem eight_sample_bounded:
  assumes "TARGET_TEMPERATURE cfg < 7000"
    and "temp_c s = temp_temp_eight s div 8"
    and "\<forall>evss\<in>set passes. captured evss < 8192"
  shows "Min (set (temp_c s # map captured passes)) \<le> temp_c (main_loop cfg passes s) \<and>
         temp_c (main_loop cfg passes s) \<le> Max (set (temp_c s # map captured passes))"
proof -
  let ?A = "set (temp_c s # map captured passes)"
  from eight_run_between [OF assms] obtain lo hi where
    "lo \<in> ?A" "lo \<le> temp_c (main_loop cfg passes s)"
    "hi \<in> ?A" "temp_c (main_loop cfg passes s) \<le> hi" by blast
  moreover have "Min ?A \<le> lo" using \<open>lo \<in> ?A\<close> by (intro Min_le) simp_all
  moreover have "hi \<le> Max ?A" using \<open>hi \<in> ?A\<close> by (intro Max_ge) simp_all
  ultimately show ?thesis by (meson order_trans)
qed

lemma source_eight: "TARGET_TEMPERATURE source_config < 7000"
  by (simp add: source_config_def)

lemma scenario4_run:
  "temp_c (main_loop source_config (eight_readings 5000) scenario4) = 5275"
proof -
  have c: "captured [[Edge 5000]] = 5000" by (simp add: captured_def)
  have 0: "temp_temp_eight scenario4 = 46400" "temp_c scenario4 = 5800"
    by (simp_all add: scenario4_def power_on_def source_config_def)
  show ?thesis
    by (simp add: eight_readings_def eight_pass [OF source_eight] c 0)
qed

text \<open>
  From scenario 4 (smoothed 5800), eight readings of 5000: the result stays between
  5000 and 5800.
\<close>

theorem eight_sample_bounded_witness:
  "TARGET_TEMPERATURE source_config < 7000 \<and>
   temp_c scenario4 = temp_temp_eight scenario4 div 8 \<and>
   list_all (\<lambda>evss. captured evss < 8192) (eight_readings 5000) \<and>
   5000 \<le> temp_c (main_loop source_config (eight_readings 5000) scenario4) \<and>
   temp_c (main_loop source_config (eight_readings 5000) scenario4) \<le> 5800"
proof -
  have c: "captured [[Edge 5000]] = 5000" by (simp add: captured_def)
  have m: "map captured (eight_readings 5000) = [5000, 5000, 5000, 5000, 5000, 5000, 5000, 5000]"
    by (simp add: eight_readings_def c)
  have 0: "temp_c scenario4 = temp_temp_eight scenario4 div 8" "temp_c scenario4 = 5800"
    by (simp_all add: scenario4_def power_on_def source_config_def)
  have r: "\<forall>evss\<in>set (eight_readings 5000). captured evss < 8192"
    by (simp add: eight_readings_def c)
  from eight_sample_bounded [OF source_eight 0(1) r] source_eight 0 r
  show ?thesis by (simp add: m list_all_iff)
qed

text \<open>
  C6 as stated fails.  From the state of scenario 4, eight passes all read 5000, so
  the trailing eight raw samples have minimum and maximum 5000; the smoothed value
  after the eighth update is 5275, further than one rounding unit above the maximum.
\<close>

theorem trailing_window_counterexample:
  "temp_c scenario4 = 5800 \<and> temp_temp_eight scenario4 = 46400 \<and>
   map captured (eight_readings 5000) = [5000, 5000, 5000, 5000, 5000, 5000, 5000, 5000] \<and>
   temp_c (main_loop source_config (eight_readings 5000) scenario4) = 5275 \<and>
   \<not> uint (temp_c (main_loop source_config (eight_readings 5000) scenario4))
       \<le> uint (Max (set (map captured (eight_readings 5000)))) + 1"
proof -
  have c: "captured [[Edge 5000]] = 5000" by (simp add: captured_def)
  have m: "map captured (eight_readings 5000) = [5000, 5000, 5000, 5000, 5000, 5000, 5000, 5000]"
    by (simp add: eight_readings_def c)
  have 0: "temp_temp_eight scenario4 = 46400" "temp_c scenario4 = 5800"
    by (simp_all add: scenario4_def power_on_def source_config_def)
  show ?thesis by (simp add: scenario4_run m 0)
qed

subsection \<open>Convergence on a constant reading\<close>

lemma two_pass:
  assumes "\<not> TARGET_TEMPERATURE cfg < 7000"
  shows "temp_c (main_loop_body cfg evss s) = (captured evss + temp_c s + 1) div 2"
  using temp_measure_two [OF assms, of evss s] by (simp add: body_filter)

lemma two_pass_exact:
  assumes "\<not> TARGET_TEMPERATURE cfg < 7000"
    and "captured evss \<le> 32767" "temp_c s \<le> 32767"
  shows "uint (temp_c (main_loop_body cfg evss s)) = (uint (captured evss) + uint (temp_c s) + 1) div 2"
proof -
  have b: "uint (captured evss) \<le> 32767" "uint (temp_c s) \<le> 32767"
    using assms(2,3) by (simp_all add: word_le_def)
  have "0 \<le> uint (captured evss)" "0 \<le> uint (temp_c s)" by simp_all
  with b have "(uint (captured evss) + uint (temp_c s) + 1) mod 65536 =
      uint (captured evss) + uint (temp_c s) + 1" by simp
  then show ?thesis
    by (simp add: two_pass [OF assms(1)] uint_div uint_word_ariths mod_simps)
qed

lemma first_pass_steady:
  assumes "reading_in_range cfg v" "captured evss = v"
  shows "filter_steady cfg v (main_loop_body cfg evss s)"
proof (cases "TARGET_TEMPERATURE cfg < 7000")
  case True
  with assms(1) eight_pass(2) [OF True, of evss s] show ?thesis
    by (simp add: reading_in_range_def filter_steady_def)
next
  case False
  let ?x = "captured evss + temp_c s + 1"
  have "uint ?x < 65536" using uint_lt2p [of ?x] by simp
  then have "uint (?x div 2) \<le> 32767" by (simp add: uint_div)
  then have "temp_c (main_loop_body cfg evss s) \<le> 32767"
    by (simp add: two_pass [OF False] word_le_def)
  with False assms(1) show ?thesis by (simp add: reading_in_range_def filter_steady_def)
qed

lemma steady_in_range: "filter_steady cfg v s \<Longrightarrow> reading_in_range cfg v"
  by (simp add: filter_steady_def reading_in_range_def split: if_splits)

lemma steady_pass_gap:
  assumes "filter_steady cfg v s" "captured evss = v"
  shows "gap cfg v (main_loop_body cfg evss s) \<le> gap cfg v s - 1"
proof (cases "TARGET_TEMPERATURE cfg < 7000")
  case True
  let ?a = "uint (temp_temp_eight s)"
  from assms(1) True have c: "temp_c s = temp_temp_eight s div 8" and v: "captured evss < 8192"
    by (simp_all add: filter_steady_def assms(2))
  have cu: "uint (temp_c s) = ?a div 8" by (simp add: c uint_div)
  have a': "uint (temp_temp_eight (main_loop_body cfg evss s)) = ?a - ?a div 8 + uint v"
    using eight_pass_exact [OF True c v] by (simp add: cu assms(2))
  show ?thesis
  proof (cases "?a div 8 = uint v")
    case eq: True
    then show ?thesis by (simp add: gap_def True a')
  next
    case ne: False
    let ?a' = "?a - ?a div 8 + uint v"
    have "(if ?a' div 8 = uint v then 0 else nat \<bar>?a' - 8 * uint v\<bar>)
        \<le> nat \<bar>?a - 8 * uint v\<bar> - 1"
    proof (cases "?a' div 8 = uint v")
      case True
      then show ?thesis by simp
    next
      case False
      with eight_step_gap [OF ne]
      have "\<bar>?a' - 8 * uint v\<bar> < \<bar>?a - 8 * uint v\<bar>" by blast
      then have "nat \<bar>?a' - 8 * uint v\<bar> \<le> nat \<bar>?a - 8 * uint v\<bar> - 1" by linarith
      with False show ?thesis by (simp only: if_False)
    qed
    then show ?thesis
      by (simp only: gap_def True a' ne if_True if_False)
  qed
next
  case False
  from assms(1) False have b: "captured evss \<le> 32767" "temp_c s \<le> 32767"
    by (simp_all add: filter_steady_def assms(2))
  have c': "uint (temp_c (main_loop_body cfg evss s)) = (uint v + uint (temp_c s) + 1) div 2"
    using two_pass_exact [OF False b] by (simp add: assms(2))
  show ?thesis
  proof (cases "uint (temp_c s) \<le> uint v")
    case le: True
    from two_step_below [OF le] show ?thesis
      by (auto simp add: gap_def False c')
  next
    case gt: False
    then have "uint v < uint (temp_c s)" by simp
    from two_step_above [OF this] gt show ?thesis
      by (auto simp add: gap_def False c')
  qed
qed

lemma steady_run_gap:
  "filter_steady cfg v s \<Longrightarrow> \<forall>evss\<in>set passes. captured evss = v \<Longrightarrow>
   filter_steady cfg v (main_loop cfg passes s) \<and>
   gap cfg v (main_loop cfg passes s) \<le> gap cfg v s - length passes"
proof (induction passes arbitrary: s)
  case Nil
  then show ?case by simp
next
  case (Cons evss passes)
  have e: "captured evss = v" and rest: "\<forall>e\<in>set passes. captured e = v"
    using Cons.prems(2) by simp_all
  have s1: "filter_steady cfg v (main_loop_body cfg evss s)"
    by (rule first_pass_steady [OF steady_in_range [OF Cons.prems(1)] e])
  from Cons.IH [OF s1 rest]
  have a: "filter_steady cfg v (main_loop cfg (evss # passes) s)"
    and b: "gap cfg v (main_loop cfg (evss # passes) s)
      \<le> gap cfg v (main_loop_body cfg evss s) - length passes"
    by simp_all
  from b steady_pass_gap [OF Cons.prems(1) e]
  have "gap cfg v (main_loop cfg (evss # passes) s) \<le> gap cfg v s - length (evss # passes)"
    by simp
  with a show ?case by blast
qed

lemma gap_bound:
  assumes "filter_steady cfg v s"
  shows "gap cfg v s \<le> 65536"
proof (cases "TARGET_TEMPERATURE cfg < 7000")
  case True
  with assms have "uint v < 8192" by (simp add: filter_steady_def word_less_def)
  moreover have "0 \<le> uint (temp_temp_eight s)" "uint (temp_temp_eight s) < 65536" "0 \<le> uint v"
    using uint_lt2p [of "temp_temp_eight s"] by simp_all
  ultimately have "nat \<bar>uint (temp_temp_eight s) - 8 * uint v\<bar> \<le> 65536" by linarith
  then show ?thesis by (simp add: gap_def True)
next
  case False
  have "0 \<le> uint v" "uint v < 65536" "0 \<le> uint (temp_c s)" "uint (temp_c s) < 65536"
    using uint_lt2p [of v] uint_lt2p [of "temp_c s"] by simp_all
  then have "nat (uint v - uint (temp_c s)) \<le> 65536 \<and>
      nat (uint (temp_c s) - uint v - 1) \<le> 65536"
    by linarith
  then show ?thesis by (simp add: gap_def False)
qed

lemma gap_zero:
  assumes "filter_steady cfg v s" "gap cfg v s = 0"
  shows "\<bar>uint (temp_c s) - uint v\<bar> \<le> 1"
proof (cases "TARGET_TEMPERATURE cfg < 7000")
  case True
  with assms(1) have c: "uint (temp_c s) = uint (temp_temp_eight s) div 8"
    by (simp add: filter_steady_def uint_div)
  have "uint (temp_temp_eight s) div 8 = uint v"
  proof (rule ccontr)
    assume ne: "uint (temp_temp_eight s) div 8 \<noteq> uint v"
    with assms(2) True have "nat \<bar>uint (temp_temp_eight s) - 8 * uint v\<bar> = 0"
      by (simp add: gap_def)
    then have "uint (temp_temp_eight s) = 8 * uint v" by linarith
    with ne show False by simp
  qed
  with c show ?thesis by simp
next
  case False
  with assms(2) show ?thesis
    by (simp add: gap_def split: if_splits)
qed

text \<open>
  C8, as the code has it.  Let the reading \<open>v\<close> be in the range of the selected
  filter (\<open>reading_in_range\<close>: below 8192 for the 8-value filter, up to 32767 for
  the two-point filter), and let every pass of the main loop capture \<open>v\<close>.  From any
  state whatever, after 65537 passes, and after any larger number of them, the smoothed
  value differs from \<open>v\<close> by at most one.  (The 8-value filter ends at \<open>v\<close> itself;
  the two-point filter ends at \<open>v\<close> when it comes from below and at \<open>v + 1\<close> when
  it comes from above.)
\<close>

theorem smoothing_converges:
  assumes "reading_in_range cfg v"
    and "65537 \<le> length passes"
    and "\<forall>evss\<in>set passes. captured evss = v"
  shows "\<bar>uint (temp_c (main_loop cfg passes s)) - uint v\<bar> \<le> 1"
proof -
  from assms(2) obtain evss rest where p: "passes = evss # rest"
    by (cases passes) auto
  with assms(2,3) have e: "captured evss = v" and r: "\<forall>e\<in>set rest. captured e = v"
    and l: "65536 \<le> length rest" by simp_all
  let ?s1 = "main_loop_body cfg evss s"
  have s1: "filter_steady cfg v ?s1" by (rule first_pass_steady [OF assms(1) e])
  from steady_run_gap [OF s1 r] gap_bound [OF s1] l
  have "filter_steady cfg v (main_loop cfg rest ?s1)" "gap cfg v (main_loop cfg rest ?s1) = 0"
    by simp_all
  from gap_zero [OF this] show ?thesis by (simp add: p)
qed

text \<open>
  The shipped build reading 5000 throughout from power-on, and a build with target 8000
  (two-point filter) reading 100 throughout from a smoothed value of 65535.
\<close>

theorem smoothing_converges_witness:
  "reading_in_range source_config 5000 \<and>
   65537 \<le> length (replicate 65537 [[Edge 5000 :: event]]) \<and>
   list_all (\<lambda>evss. captured evss = 5000) (replicate 65537 [[Edge 5000]]) \<and>
   \<bar>uint (temp_c (main_loop source_config (replicate 65537 [[Edge 5000]]) (main source_config []))) - 5000\<bar> \<le> 1 \<and>
   reading_in_range scenario_config 100 \<and>
   \<bar>uint (temp_c (main_loop scenario_config (replicate 65537 [[Edge 100]])
       ((power_on scenario_config)\<lparr>temp_c := 65535\<rparr>))) - 100\<bar> \<le> 1"
proof -
  have c: "captured [[Edge 5000]] = 5000" "captured [[Edge 100]] = 100"
    by (simp_all add: captured_def)
  have a: "reading_in_range source_config 5000"
    by (simp add: reading_in_range_def source_config_def)
  have b: "reading_in_range scenario_config 100"
    by (simp add: reading_in_range_def scenario_config_def source_config_def)
  have l: "65537 \<le> length (replicate 65537 [[Edge t]])" for t by simp
  have r: "\<forall>evss\<in>set (replicate 65537 [[Edge 5000]]). captured evss = 5000"
    "\<forall>evss\<in>set (replicate 65537 [[Edge 100]]). captured evss = 100"
    by (simp_all add: c)
  from smoothing_converges [OF a l r(1), of "main source_config []"]
    smoothing_converges [OF b l r(2), of "(power_on scenario_config)\<lparr>temp_c := 65535\<rparr>"] a b r
  show ?thesis by (simp add: list_all_iff)
qed

lemma main_loop_snoc:
  "main_loop cfg (passes @ [evss]) s = main_loop_body cfg evss (main_loop cfg passes s)"
  by (induction passes arbitrary: s) simp_all

lemma eight_filter_ceiling:
  assumes "TARGET_TEMPERATURE cfg < 7000" "passes \<noteq> []"
  shows "uint (temp_c (main_loop cfg passes s)) \<le> 8191"
proof -
  from assms(2) obtain front evss where p: "passes = front @ [evss]"
    by (cases passes rule: rev_cases) auto
  let ?s' = "main_loop_body cfg evss (main_loop cfg front s)"
  have "uint (temp_temp_eight ?s') < 65536" using uint_lt2p [of "temp_temp_eight ?s'"] by simp
  then have "uint (temp_temp_eight ?s' div 8) \<le> 8191" by (simp add: uint_div)
  then show ?thesis
    by (simp add: p main_loop_snoc eight_pass(2) [OF assms(1), symmetric])
qed

text \<open>
  C8 as stated, for every constant reading, fails.  The shipped build uses the 8-value
  filter, whose smoothed value is an eighth of a 16-bit accumulator and so never exceeds
  8191.  With the reading constant at 13500 (the value the source expects of a
  thermistor at 30 kOhm) the smoothed value stays at least 5309 away from the reading
  after every pass, however many passes there are: no number of updates is enough.
\<close>

theorem smoothing_diverges_counterexample:
  "\<not> (\<exists>N. \<forall>passes. N \<le> length passes \<and> (\<forall>evss\<in>set passes. captured evss = 13500) \<longrightarrow>
        \<bar>uint (temp_c (main_loop source_config passes (main source_config []))) - 13500\<bar> \<le> 1)"
proof
  assume "\<exists>N. \<forall>passes. N \<le> length passes \<and> (\<forall>evss\<in>set passes. captured evss = 13500) \<longrightarrow>
        \<bar>uint (temp_c (main_loop source_config passes (main source_config []))) - 13500\<bar> \<le> 1"
  then obtain N where n: "\<forall>passes. N \<le> length passes \<and> (\<forall>evss\<in>set passes. captured evss = 13500) \<longrightarrow>
        \<bar>uint (temp_c (main_loop source_config passes (main source_config []))) - 13500\<bar> \<le> 1"
    by blast
  let ?passes = "replicate (Suc N) [[Edge 13500]]"
  have "captured [[Edge 13500]] = 13500" by (simp add: captured_def)
  then have "N \<le> length ?passes \<and> (\<forall>evss\<in>set ?passes. captured evss = 13500)" by simp
  with n have near: "\<bar>uint (temp_c (main_loop source_config ?passes (main source_config []))) - 13500\<bar> \<le> 1"
    by blast
  have "?passes \<noteq> []" by simp
  from eight_filter_ceiling [OF source_eight this, of "main source_config []"] near
  show False by linarith
qed

subsection \<open>The valve actuator\<close>

lemma level_snoc:
  "level (tr @ [e]) p =
     (case e of Write q v \<Rightarrow> (if q = p then v else level tr p) | _ \<Rightarrow> level tr p)"
  by (cases e) simp_all

lemma lines_exclusive_snoc:
  "lines_exclusive (tr @ [e]) \<longleftrightarrow>
     lines_exclusive tr \<and> \<not> (level (tr @ [e]) MOT_OPEN \<and> level (tr @ [e]) MOT_CLOSE)"
  by (auto simp add: lines_exclusive_def simp del: level.simps)

lemma motors_off_quiet:
  assumes "motors_off tr" "e \<noteq> Write MOT_OPEN True" "e \<noteq> Write MOT_CLOSE True"
  shows "motors_off (tr @ [e])"
proof -
  have "\<not> level (tr @ [e]) MOT_OPEN" "\<not> level (tr @ [e]) MOT_CLOSE"
    using assms unfolding level_snoc motors_off_def
    by (cases e; auto simp del: level.simps)+
  with assms(1) show ?thesis
    by (simp add: motors_off_def lines_exclusive_snoc del: level.simps)
qed

lemma motors_off_quiet_list:
  "motors_off tr \<Longrightarrow> Write MOT_OPEN True \<notin> set es \<Longrightarrow> Write MOT_CLOSE True \<notin> set es \<Longrightarrow>
   motors_off (tr @ es)"
proof (induction es arbitrary: tr)
  case Nil
  then show ?case by simp
next
  case (Cons e es)
  from Cons.prems have "motors_off (tr @ [e])" by (intro motors_off_quiet) auto
  from Cons.IH [OF this] Cons.prems show ?case by simp
qed

lemma motors_off_pulse:
  assumes "motors_off tr"
  shows "motors_off (tr @ pulse cfg a)"
proof (cases a)
  case Close
  have 1: "lines_exclusive (tr @ [Write MOT_CLOSE True])"
    "\<not> level (tr @ [Write MOT_CLOSE True]) MOT_OPEN"
    using assms by (simp_all add: motors_off_def lines_exclusive_snoc level_snoc del: level.simps)
  then have 2: "lines_exclusive ((tr @ [Write MOT_CLOSE True]) @ [DelayMs (MOT_CLOSE_TIME cfg)])"
    "\<not> level ((tr @ [Write MOT_CLOSE True]) @ [DelayMs (MOT_CLOSE_TIME cfg)]) MOT_OPEN"
    by (simp_all only: lines_exclusive_snoc level_snoc) simp_all
  then have "motors_off (((tr @ [Write MOT_CLOSE True]) @ [DelayMs (MOT_CLOSE_TIME cfg)]) @
      [Write MOT_CLOSE False])"
    by (simp only: motors_off_def lines_exclusive_snoc level_snoc) simp
  then show ?thesis by (simp add: Close del: level.simps)
next
  case Open
  have 1: "lines_exclusive (tr @ [Write MOT_OPEN True])"
    "\<not> level (tr @ [Write MOT_OPEN True]) MOT_CLOSE"
    using assms by (simp_all add: motors_off_def lines_exclusive_snoc level_snoc del: level.simps)
  then have 2: "lines_exclusive ((tr @ [Write MOT_OPEN True]) @ [DelayMs (MOT_OPEN_TIME cfg)])"
    "\<not> level ((tr @ [Write MOT_OPEN True]) @ [DelayMs (MOT_OPEN_TIME cfg)]) MOT_CLOSE"
    by (simp_all only: lines_exclusive_snoc level_snoc) simp_all
  then have "motors_off (((tr @ [Write MOT_OPEN True]) @ [DelayMs (MOT_OPEN_TIME cfg)]) @
      [Write MOT_OPEN False])"
    by (simp only: motors_off_def lines_exclusive_snoc level_snoc) simp
  then show ?thesis by (simp add: Open del: level.simps)
next
  case NoMove
  with assms show ?thesis by simp
qed

lemma regulate_pulse:
  "\<exists>a. trace (regulate cfg s) = trace s @ pulse cfg a \<and>
       motor_moved (answer (regulate cfg s)) = marker a"
proof -
  let ?tf = "temp_future cfg s"
  let ?lo = "word_of_int (TARGET_TEMPERATURE cfg - THERMISTOR_HYSTERESIS cfg) :: 16 word"
  let ?hi = "word_of_int (TARGET_TEMPERATURE cfg + THERMISTOR_HYSTERESIS cfg) :: 16 word"
  consider "?tf < ?lo" | "\<not> ?tf < ?lo" "?hi < ?tf" | "\<not> ?tf < ?lo" "\<not> ?hi < ?tf" by blast
  then show ?thesis
  proof cases
    case 1
    then have "trace (regulate cfg s) = trace s @ pulse cfg Close \<and>
       motor_moved (answer (regulate cfg s)) = marker Close"
      by (simp add: regulate_def Let_def motor_close_def WRITE_def delay_ms_def
          del: of_int_add of_int_diff)
    then show ?thesis ..
  next
    case 2
    then have "trace (regulate cfg s) = trace s @ pulse cfg Open \<and>
       motor_moved (answer (regulate cfg s)) = marker Open"
      by (simp add: regulate_def Let_def motor_open_def WRITE_def delay_ms_def
          del: of_int_add of_int_diff)
    then show ?thesis ..
  next
    case 3
    then have "trace (regulate cfg s) = trace s @ pulse cfg NoMove \<and>
       motor_moved (answer (regulate cfg s)) = marker NoMove"
      by (simp add: regulate_def Let_def del: of_int_add of_int_diff)
    then show ?thesis ..
  qed
qed

lemma motors_off_event:
  "motors_off (trace s) \<Longrightarrow> motors_off (trace (handle_event e s))"
  by (cases e) (simp_all add: ANA_COMP_vect_def WRITE_def usbFunctionSetup_def motors_off_quiet
      del: level.simps)

lemma motors_off_events:
  "motors_off (trace s) \<Longrightarrow> motors_off (trace (fold handle_event evs s))"
  by (induction evs arbitrary: s) (simp_all add: motors_off_event del: level.simps)

lemma motors_off_delay:
  "motors_off (trace s) \<Longrightarrow> motors_off (trace (delay_ms d s))"
  by (simp add: delay_ms_def motors_off_quiet del: level.simps)

lemma motors_off_poll:
  "motors_off (trace s) \<Longrightarrow> motors_off (trace (poll_rounds n evss s))"
  by (induction n evss s rule: poll_rounds.induct)
     (simp_all add: motors_off_events motors_off_delay split: list.splits del: level.simps)

lemma motors_off_measure:
  assumes "motors_off (trace s)"
  shows "motors_off (trace (temp_measure cfg evss s))"
proof -
  have "motors_off (trace (temp_measure_start s))"
    using motors_off_quiet_list [OF assms, of "[ClearTimer1, Write TEMP_C True]"]
    by (simp add: temp_measure_start_def WRITE_def del: level.simps)
  then have "motors_off (trace (poll_a_second evss (temp_measure_start s)))"
    unfolding poll_a_second_def by (rule motors_off_poll)
  then show ?thesis
    by (simp add: temp_measure_def temp_measure_smooth_def Let_def del: level.simps)
qed

lemma motors_off_body:
  assumes "motors_off (trace s)"
  shows "motors_off (trace (main_loop_body cfg evss s))"
proof -
  let ?s2 = "(temp_measure cfg evss s)\<lparr>time := time (temp_measure cfg evss s) + 1\<rparr>"
  have m: "motors_off (trace ?s2)" using motors_off_measure [OF assms, of cfg evss] by simp
  obtain a where "trace (regulate cfg ?s2) = trace ?s2 @ pulse cfg a"
    using regulate_pulse [of cfg ?s2] by blast
  with motors_off_pulse [OF m, of cfg a] have "motors_off (trace (regulate cfg ?s2))" by simp
  with m show ?thesis by (simp add: main_loop_body_def Let_def del: level.simps)
qed

lemma motors_off_loop:
  "motors_off (trace s) \<Longrightarrow> motors_off (trace (main_loop cfg passes s))"
  by (induction passes arbitrary: s) (simp_all add: motors_off_body del: level.simps)

lemma motors_off_init: "motors_off (trace (hardware_init (power_on cfg)))"
proof -
  have "motors_off []" by (simp add: motors_off_def lines_exclusive_def)
  from motors_off_quiet_list [OF this, of "[SetOutput TEMP_C, SetOutput MOT_OPEN,
      Write MOT_OPEN False, SetOutput MOT_CLOSE, Write MOT_CLOSE False, DelayMs 300]"]
  show ?thesis
    by (simp add: hardware_init_def motor_init_def temp_init_def WRITE_def SET_OUTPUT_def
        delay_ms_def power_on_def del: level.simps)
qed

text \<open>
  C9.  Whatever the calibration and whatever happens in however many passes of the main
  loop, at no moment of the run (hardware initialisation included) are \<open>MOT_OPEN\<close>
  and \<open>MOT_CLOSE\<close> both high, and both are low after every pass.  Each regulation
  decision adds to the output either nothing or one pulse on one line: the line is
  written high, \<open>_delay_ms\<close> is called once with \<open>MOT_OPEN_TIME\<close> or
  \<open>MOT_CLOSE_TIME\<close>, and the same line is written low before the block goes on.
  Durations are the arguments of \<open>_delay_ms\<close>; the time the processor spends in an
  interrupt during a pulse is not part of the model.
\<close>

theorem motor_lines_exclusive:
  "lines_exclusive (trace (main cfg passes)) \<and>
   \<not> level (trace (main cfg passes)) MOT_OPEN \<and>
   \<not> level (trace (main cfg passes)) MOT_CLOSE \<and>
   (\<exists>a. trace (regulate cfg s) = trace s @ pulse cfg a \<and>
        motor_moved (answer (regulate cfg s)) = marker a)"
proof -
  have "motors_off (trace (main cfg passes))"
    unfolding main_def by (rule motors_off_loop [OF motors_off_init])
  with regulate_pulse [of cfg s] show ?thesis
    by (simp add: motors_off_def del: level.simps)
qed

text \<open>
  The run of \<open>hasty\<close> over \<open>two_passes\<close>, without the 40 ms waits: an open pulse
  after the first measurement, a close pulse after the second.
\<close>

theorem motor_lines_exclusive_witness:
  "lines_exclusive (trace (main hasty two_passes)) \<and>
   filter (\<lambda>e. e \<noteq> DelayMs 40) (trace (main hasty two_passes)) =
     [SetOutput TEMP_C, SetOutput MOT_OPEN, Write MOT_OPEN False,
      SetOutput MOT_CLOSE, Write MOT_CLOSE False, DelayMs 300,
      ClearTimer1, Write TEMP_C True, Write TEMP_C False,
      Write MOT_OPEN True, DelayMs 200, Write MOT_OPEN False,
      ClearTimer1, Write TEMP_C True, Write TEMP_C False,
      Write MOT_CLOSE True, DelayMs 400, Write MOT_CLOSE False] \<and>
   motor_moved (answer (main hasty two_passes)) = CHR_MINUS"
proof -
  have "filter (\<lambda>e. e \<noteq> DelayMs 40) (trace (main hasty two_passes)) =
     [SetOutput TEMP_C, SetOutput MOT_OPEN, Write MOT_OPEN False,
      SetOutput MOT_CLOSE, Write MOT_CLOSE False, DelayMs 300,
      ClearTimer1, Write TEMP_C True, Write TEMP_C False,
      Write MOT_OPEN True, DelayMs 200, Write MOT_OPEN False,
      ClearTimer1, Write TEMP_C True, Write TEMP_C False,
      Write MOT_CLOSE True, DelayMs 400, Write MOT_CLOSE False]"
    by code_simp
  moreover have "motor_moved (answer (main hasty two_passes)) = CHR_MINUS"
    by code_simp
  ultimately show ?thesis
    using motor_lines_exclusive [of hasty two_passes] by blast
qed

end
